theory Spec2Isabelle
  imports Complex_Main
begin

section \<open>JavaScript values\<close>

text \<open>
  The server of \<^verbatim>\<open>app-test.js\<close> keeps two JSON documents, the organization list and the
  configuration map, and serves four actions over them. This theory embeds the handlers of
  \<^verbatim>\<open>createOrg\<close>, \<^verbatim>\<open>getOrgConfig\<close> and \<^verbatim>\<open>updateOrgConfig\<close> and the allocator
  \<^verbatim>\<open>generateOrgId\<close>.

  A JavaScript number is \<open>NaN\<close>, an infinity or a finite double. A finite value is kept
  as the rational it is; the rounding that makes it a double is written out below
  (\<open>to_double\<close>).
\<close>

datatype jsnum = NaN | PosInfinity | NegInfinity | Fin rat

text \<open>
  The values a parsed JSON document holds, and \<open>JNative\<close> for the functions and objects
  a plain object inherits from \<^verbatim>\<open>Object.prototype\<close>. An object is the list of its own
  enumerable properties in enumeration order (no key twice).
\<close>

datatype jsval =
    JNull
  | JBool bool
  | JNum rat
  | JStr string
  | JArr "jsval list"
  | JObj "(string \<times> jsval) list"
  | JNative string

type_synonym jsobj = "(string \<times> jsval) list"

text \<open>What \<^verbatim>\<open>if (v)\<close>, \<^verbatim>\<open>!v\<close> and \<^verbatim>\<open>v || w\<close> test.\<close>

fun truthy :: "jsval \<Rightarrow> bool" where
  "truthy JNull = False"
| "truthy (JBool b) = b"
| "truthy (JNum r) = (r \<noteq> 0)"
| "truthy (JStr s) = (s \<noteq> [])"
| "truthy (JArr xs) = True"
| "truthy (JObj ps) = True"
| "truthy (JNative n) = True"

text \<open>\<^verbatim>\<open>a || b\<close> and \<^verbatim>\<open>!a\<close>, where \<open>None\<close> is \<^verbatim>\<open>undefined\<close>.\<close>

definition or_else :: "jsval option \<Rightarrow> jsval \<Rightarrow> jsval" where
  "or_else a b = (case a of None \<Rightarrow> b | Some v \<Rightarrow> if truthy v then v else b)"

definition falsy :: "jsval option \<Rightarrow> bool" where
  "falsy a = (case a of None \<Rightarrow> True | Some v \<Rightarrow> \<not> truthy v)"

text \<open>\<^verbatim>\<open>!s\<close> for a text field of the form: absent or the empty string.\<close>

definition blank :: "string option \<Rightarrow> bool" where
  "blank a = (case a of None \<Rightarrow> True | Some s \<Rightarrow> s = [])"

subsection \<open>Doubles\<close>

text \<open>
  Rounding to the nearest integer, ties to the even one, as IEEE 754 rounds a mantissa.
\<close>

definition round_half_even :: "rat \<Rightarrow> int" where
  "round_half_even y =
     (let f = \<lfloor>y\<rfloor>; d = y - of_int f
      in if d < 1 / 2 then f
         else if 1 / 2 < d then f + 1
         else if even f then f else f + 1)"

text \<open>
  The double nearest to a rational. A double in \<open>[2^39, 2^40)\<close> is a multiple of
  \<open>2^-13\<close> and a double in \<open>[2^40, 2^41)\<close> a multiple of \<open>2^-12\<close> (53 bits of
  mantissa). These two ranges hold the id band \<open>[1000000000000, 1999999999999]\<close> and
  every sum \<^verbatim>\<open>maxId + 1\<close> of the allocator, so the rounding is written out there. A
  number of any other magnitude is outside the band before and after its rounding, takes
  no part in what the allocator computes, and is left as it is.
\<close>

definition to_double :: "rat \<Rightarrow> rat" where
  "to_double x =
     (if 2 ^ 39 \<le> x \<and> x < 2 ^ 40 then of_int (round_half_even (x * 2 ^ 13)) / 2 ^ 13
      else if 2 ^ 40 \<le> x \<and> x < 2 ^ 41 then of_int (round_half_even (x * 2 ^ 12)) / 2 ^ 12
      else x)"

fun as_double :: "jsnum \<Rightarrow> jsnum" where
  "as_double (Fin r) = Fin (to_double r)"
| "as_double n = n"

subsection \<open>Decimal digits\<close>

definition is_digit :: "char \<Rightarrow> bool" where
  "is_digit c = (c \<in> set ''0123456789'')"

definition digit_val :: "char \<Rightarrow> nat" where
  "digit_val c = length (takeWhile (\<lambda>d. d \<noteq> c) ''0123456789'')"

definition dec_value :: "string \<Rightarrow> nat" where
  "dec_value s = foldl (\<lambda>a c. 10 * a + digit_val c) 0 s"

definition digit_char :: "nat \<Rightarrow> char" where
  "digit_char d = ''0123456789'' ! d"

function show_nat :: "nat \<Rightarrow> string" where
  "show_nat n =
     (if n < 10 then [digit_char n] else show_nat (n div 10) @ [digit_char (n mod 10)])"
  by pat_completeness auto
termination
  by (relation "measure id") auto

subsection \<open>The runtime's conversions\<close>

text \<open>
  \<^verbatim>\<open>Number(s)\<close> of a string, \<^verbatim>\<open>String(x)\<close> of a number and \<^verbatim>\<open>JSON.parse\<close> belong to the
  JavaScript runtime, not to the repository. The conversions are fixed here where they are
  plain decimal notation: a string of 1 to 15 decimal digits is the integer it writes, and
  an integer below \<open>2^53\<close> in absolute value prints as its decimal digits (from \<open>2^53\<close>
  on \<^verbatim>\<open>String\<close> prints the shortest digits that read back as the same double, which need
  not be the digits of the integer). Everything else (signs, fractions, exponents, white
  space, hexadecimal, \<^verbatim>\<open>Infinity\<close>, the digits of the other numbers, and the JSON
  grammar) is a parameter, so every theorem below holds for whatever the runtime does
  there; what \<^verbatim>\<open>Number\<close> yields is a double in any case. \<open>JSON_parse\<close> returns \<open>None\<close>
  where \<^verbatim>\<open>JSON.parse\<close> throws.
\<close>

record runtime =
  StringToNumber_rest :: "string \<Rightarrow> jsnum"
  NumberToString_rest :: "rat \<Rightarrow> string"
  JSON_parse :: "string \<Rightarrow> jsval option"

definition StringToNumber :: "runtime \<Rightarrow> string \<Rightarrow> jsnum" where
  "StringToNumber rt s =
     (if s \<noteq> [] \<and> length s \<le> 15 \<and> list_all is_digit s
      then Fin (of_nat (dec_value s))
      else as_double (StringToNumber_rest rt s))"

definition NumberToString :: "runtime \<Rightarrow> rat \<Rightarrow> string" where
  "NumberToString rt r =
     (if of_int \<lfloor>r\<rfloor> = r \<and> \<bar>r\<bar> < 2 ^ 53
      then (if r < 0 then CHR ''-'' # show_nat (nat \<lfloor>- r\<rfloor>) else show_nat (nat \<lfloor>r\<rfloor>))
      else NumberToString_rest rt r)"

section \<open>Organizations and the identifier allocator\<close>

text \<open>
  An organization record is \<^verbatim>\<open>{ORG_ID, ORG_NAME}\<close>. The handlers write \<^verbatim>\<open>ORG_ID\<close> as a
  number (\<^verbatim>\<open>createOrg\<close>, and \<^verbatim>\<open>updateOrgConfig\<close> for an id that parses as a number) or as
  the request's string (\<^verbatim>\<open>updateOrgConfig\<close> otherwise); an infinite number is stored by
  \<^verbatim>\<open>JSON.stringify\<close> as \<^verbatim>\<open>null\<close>. A number \<open>IdNum r\<close> of the stored list is the
  decimal \<open>r\<close> of the file, which \<^verbatim>\<open>JSON.parse\<close> reads as the nearest double.
\<close>

datatype org_id = IdNull | IdNum rat | IdStr string

record org =
  ORG_ID :: org_id
  ORG_NAME :: string

text \<open>\<^verbatim>\<open>Number(o.ORG_ID)\<close> and \<^verbatim>\<open>String(o.ORG_ID)\<close>, of the double that the id is.\<close>

fun ToNumber :: "runtime \<Rightarrow> org_id \<Rightarrow> jsnum" where
  "ToNumber rt IdNull = Fin 0"
| "ToNumber rt (IdNum r) = Fin (to_double r)"
| "ToNumber rt (IdStr s) = StringToNumber rt s"

fun ToString :: "runtime \<Rightarrow> org_id \<Rightarrow> string" where
  "ToString rt IdNull = ''null''"
| "ToString rt (IdNum r) = NumberToString rt (to_double r)"
| "ToString rt (IdStr s) = s"

definition MIN_ORG_ID :: rat where
  "MIN_ORG_ID = 1000000000000"

definition MAX_ORG_ID :: rat where
  "MAX_ORG_ID = 1999999999999"

datatype error = RangeExhausted

fun error_message :: "error \<Rightarrow> string" where
  "error_message RangeExhausted = ''OrgId range exhausted''"

text \<open>
  The \<^verbatim>\<open>for (const o of orgs)\<close> loop of \<^verbatim>\<open>generateOrgId\<close>, with its variable \<^verbatim>\<open>maxId\<close>,
  and the function: the sum \<^verbatim>\<open>maxId + 1\<close> is an addition of doubles, the exact sum rounded
  to the nearest double.
\<close>

fun generateOrgId_loop :: "runtime \<Rightarrow> org list \<Rightarrow> rat \<Rightarrow> rat" where
  "generateOrgId_loop rt [] maxId = maxId"
| "generateOrgId_loop rt (org # orgs) maxId =
     (case ToNumber rt (ORG_ID org) of
        Fin idNum \<Rightarrow>
          if idNum \<ge> MIN_ORG_ID \<and> idNum \<le> MAX_ORG_ID
          then (if idNum > maxId then generateOrgId_loop rt orgs idNum
                else generateOrgId_loop rt orgs maxId)
          else generateOrgId_loop rt orgs maxId
      | _ \<Rightarrow> generateOrgId_loop rt orgs maxId)"

definition generateOrgId :: "runtime \<Rightarrow> org list \<Rightarrow> error + rat" where
  "generateOrgId rt orgs =
     (let next_id = to_double (generateOrgId_loop rt orgs (MIN_ORG_ID - 1) + 1)
      in if next_id > MAX_ORG_ID then Inl RangeExhausted else Inr next_id)"

subsection \<open>The allocator as the specification words it\<close>

text \<open>
  An organization is in range when its id, read as a number, is finite and lies in
  \<open>[MIN_ORG_ID, MAX_ORG_ID]\<close>; the candidate is the maximum of the observed in-range ids
  and \<open>MIN_ORG_ID - 1\<close>, plus one.
\<close>

definition in_range :: "runtime \<Rightarrow> org \<Rightarrow> bool" where
  "in_range rt org =
     (case ToNumber rt (ORG_ID org) of
        Fin x \<Rightarrow> MIN_ORG_ID \<le> x \<and> x \<le> MAX_ORG_ID
      | _ \<Rightarrow> False)"

definition id_number :: "runtime \<Rightarrow> org \<Rightarrow> rat" where
  "id_number rt org = (case ToNumber rt (ORG_ID org) of Fin x \<Rightarrow> x | _ \<Rightarrow> 0)"

definition observed_ids :: "runtime \<Rightarrow> org list \<Rightarrow> rat list" where
  "observed_ids rt orgs = map (id_number rt) (filter (in_range rt) orgs)"

definition candidate :: "runtime \<Rightarrow> org list \<Rightarrow> rat" where
  "candidate rt orgs = Max (set (observed_ids rt orgs) \<union> {MIN_ORG_ID - 1}) + 1"

section \<open>Objects\<close>

text \<open>
  The names every plain object inherits from \<^verbatim>\<open>Object.prototype\<close>. Reading such a name
  on an object that has no own property of that name yields the inherited function (for
  \<^verbatim>\<open>__proto__\<close>, the prototype object): a truthy value with no enumerable property.
\<close>

definition Object_prototype :: "string list" where
  "Object_prototype =
     [''constructor'', ''__defineGetter__'', ''__defineSetter__'', ''hasOwnProperty'',
      ''__lookupGetter__'', ''__lookupSetter__'', ''isPrototypeOf'',
      ''propertyIsEnumerable'', ''toString'', ''valueOf'', ''__proto__'',
      ''toLocaleString'']"

text \<open>\<^verbatim>\<open>obj[k]\<close>: the own property, else the inherited one, else \<^verbatim>\<open>undefined\<close>.\<close>

definition get_property :: "jsobj \<Rightarrow> string \<Rightarrow> jsval option" where
  "get_property obj k =
     (case map_of obj k of
        Some v \<Rightarrow> Some v
      | None \<Rightarrow> if k \<in> set Object_prototype then Some (JNative k) else None)"

text \<open>
  The own enumerable properties that a spread \<^verbatim>\<open>...v\<close> copies: those of an object, the
  indexed elements of an array, the indexed characters of a string, none otherwise.
\<close>

fun own_props :: "jsval \<Rightarrow> jsobj" where
  "own_props (JObj ps) = ps"
| "own_props (JArr xs) = zip (map show_nat [0..<length xs]) xs"
| "own_props (JStr s) = zip (map show_nat [0..<length s]) (map (\<lambda>c. JStr [c]) s)"
| "own_props v = []"

text \<open>
  A key is an array index when it is the canonical decimal form of an integer below
  \<open>2^32 - 1\<close>. Objects enumerate their array-index keys first, in ascending order, and
  the other keys after them in insertion order.
\<close>

definition is_array_index :: "string \<Rightarrow> bool" where
  "is_array_index k =
     (k \<noteq> [] \<and> list_all is_digit k \<and> (k = ''0'' \<or> hd k \<noteq> CHR ''0'')
      \<and> dec_value k < 2 ^ 32 - 1)"

fun replace_value :: "string \<Rightarrow> jsval \<Rightarrow> jsobj \<Rightarrow> jsobj" where
  "replace_value k v [] = []"
| "replace_value k v (p # ps) =
     (if fst p = k then (k, v) # ps else p # replace_value k v ps)"

fun insert_index :: "string \<Rightarrow> jsval \<Rightarrow> jsobj \<Rightarrow> jsobj" where
  "insert_index k v [] = [(k, v)]"
| "insert_index k v (p # ps) =
     (if is_array_index (fst p) \<and> dec_value (fst p) < dec_value k
      then p # insert_index k v ps
      else (k, v) # p # ps)"

text \<open>Defining the own property \<open>k\<close> of an object: what a spread does for every key.\<close>

definition define_prop :: "jsobj \<Rightarrow> string \<Rightarrow> jsval \<Rightarrow> jsobj" where
  "define_prop ps k v =
     (if k \<in> set (map fst ps) then replace_value k v ps
      else if is_array_index k then insert_index k v ps
      else ps @ [(k, v)])"

text \<open>The object literal \<^verbatim>\<open>{...a, ...b}\<close>.\<close>

definition spread :: "jsval list \<Rightarrow> jsval" where
  "spread vs =
     JObj (foldl (\<lambda>ps kv. define_prop ps (fst kv) (snd kv)) [] (concat (map own_props vs)))"

text \<open>
  The assignment \<^verbatim>\<open>obj[k] = v\<close> with an object \<open>v\<close>. It defines the own property, except
  for the key \<^verbatim>\<open>__proto__\<close> on an object with no own property of that name: there the
  inherited setter replaces the prototype and the own properties, which are all that
  \<^verbatim>\<open>JSON.stringify\<close> writes, stay as they are.
\<close>

definition assign_prop :: "jsobj \<Rightarrow> string \<Rightarrow> jsval \<Rightarrow> jsobj" where
  "assign_prop ps k v =
     (if k = ''__proto__'' \<and> map_of ps k = None then ps else define_prop ps k v)"

section \<open>Configuration documents\<close>

definition DEFAULT_CONFIG :: jsval where
  "DEFAULT_CONFIG = JObj
     [(''isDefault'', JBool True),
      (''enabledFeatures'',
         JArr [JStr ''2'', JStr ''5'', JStr ''6'', JStr ''9'', JStr ''10'', JStr ''11'']),
      (''includeCrawledURLCountInResponse'', JBool False),
      (''throttleTimeInterval'', JStr ''1D''),
      (''whiteListedDomains'',
         JArr [JStr ''help.zoho.com'', JStr ''docs.catalyst.zoho.com'',
               JStr ''blogs.manageengine.com'', JStr ''www.manageengine.com'',
               JStr ''blog.zoho.com'']),
      (''throttleRequestCount'', JNum 50),
      (''maxDepthAllowed'', JNum (- 1)),
      (''maxPagesToFetchAllowed'', JNum 20000),
      (''maxAsyncResponseRate'', JNum 100),
      (''requestPriority'', JNum 5),
      (''isDynamicCrawlingAllowed'', JBool True),
      (''enabledCrawlerFields'', JArr [JStr ''Html'', JStr ''OutGoingURLs'', JStr ''Markdown'']),
      (''additionalQueryParams'',
         JArr [JStr ''requestId'', JStr ''recordId'', JStr ''seedStatus'',
               JStr ''recordStatus''])]"

text \<open>
  \<^verbatim>\<open>c && c.isDefault === true\<close>. Only an object can have the member: arrays, strings,
  numbers and booleans of a JSON document have none of that name.
\<close>

definition is_default :: "jsval \<Rightarrow> bool" where
  "is_default c =
     (truthy c \<and>
      (case c of JObj ps \<Rightarrow> get_property ps ''isDefault'' = Some (JBool True) | _ \<Rightarrow> False))"

text \<open>
  Lines 190 to 198 of \<^verbatim>\<open>getOrgConfig\<close>: the document served for \<open>orgId\<close> from the
  configuration map \<open>configs\<close>.
\<close>

definition resolveConfig :: "jsobj \<Rightarrow> string \<Rightarrow> jsval" where
  "resolveConfig configs orgId =
     (let config = get_property configs orgId
      in if falsy config
         then (let allConfigs = map snd configs;
                   defaultInFile = find is_default allConfigs
               in or_else defaultInFile DEFAULT_CONFIG)
         else (case config of Some c \<Rightarrow> c | None \<Rightarrow> DEFAULT_CONFIG))"

text \<open>Lines 233 to 239 of \<^verbatim>\<open>updateOrgConfig\<close>: the merge base and the merge.\<close>

definition existingConfig :: "jsobj \<Rightarrow> string \<Rightarrow> jsval" where
  "existingConfig configs orgId = or_else (get_property configs orgId) DEFAULT_CONFIG"

definition mergedConfig :: "jsval \<Rightarrow> jsval \<Rightarrow> jsval" where
  "mergedConfig existing incoming = spread [existing, incoming]"

subsection \<open>The resolver as the specification words it\<close>

text \<open>
  A document with \<^verbatim>\<open>isDefault === true\<close>; the fallback chain (the first such document
  among the map's values, in the map's order, else the hardcoded default); and the
  precedence of the resolver: the entry of \<open>orgId\<close> if the map has one, else the
  fallback chain.
\<close>

definition has_isDefault_true :: "jsval \<Rightarrow> bool" where
  "has_isDefault_true d =
     (case d of JObj ps \<Rightarrow> map_of ps ''isDefault'' = Some (JBool True) | _ \<Rightarrow> False)"

definition fallback_spec :: "jsobj \<Rightarrow> jsval \<Rightarrow> jsval" where
  "fallback_spec configMap hardcodedDefault =
     (case filter has_isDefault_true (map snd configMap) of
        [] \<Rightarrow> hardcodedDefault
      | d # ds \<Rightarrow> d)"

definition resolve_spec :: "string \<Rightarrow> jsobj \<Rightarrow> jsval \<Rightarrow> jsval" where
  "resolve_spec orgId configMap hardcodedDefault =
     (case map_of configMap orgId of
        Some d \<Rightarrow> d
      | None \<Rightarrow> fallback_spec configMap hardcodedDefault)"

section \<open>The store, requests and responses\<close>

text \<open>
  The store is the content of the two files as \<^verbatim>\<open>readJson\<close> returns it: a missing, empty
  or unparsable file reads as the empty document, and an organization file that holds no
  array reads as the empty list. \<^verbatim>\<open>writeJson\<close> replaces a file's content.
\<close>

record store =
  CONFIG_FILE :: jsobj
  ORG_FILE :: "org list"

text \<open>
  The fields of the form: \<open>None\<close> for a field that was not sent. \<^verbatim>\<open>config\<close> is a text
  (\<open>JStr\<close>) or an already structured value.
\<close>

record request =
  req_action :: "string option"
  req_orgName :: "string option"
  req_orgId :: "string option"
  req_config :: "jsval option"

datatype details = NoDetails | OrgDetails org | OrgListDetails "org list" | ConfigDetails jsval

record response =
  res_status :: nat
  res_message :: string
  res_details :: details

definition reply :: "nat \<Rightarrow> string \<Rightarrow> details \<Rightarrow> response" where
  "reply s m d = \<lparr>res_status = s, res_message = m, res_details = d\<rparr>"

section \<open>The handlers\<close>

definition getAllOrg :: "store \<Rightarrow> response \<times> store" where
  "getAllOrg st =
     (reply 200 ''Org list fetched successfully'' (OrgListDetails (ORG_FILE st)), st)"

definition createOrg :: "runtime \<Rightarrow> request \<Rightarrow> store \<Rightarrow> response \<times> store" where
  "createOrg rt req st =
     (case req_orgName req of
        None \<Rightarrow> (reply 400 ''Missing orgName'' NoDetails, st)
      | Some orgName \<Rightarrow>
          if orgName = [] then (reply 400 ''Missing orgName'' NoDetails, st)
          else
            let orgs = ORG_FILE st;
                nameExists = list_ex (\<lambda>org. ORG_NAME org = orgName) orgs
            in if nameExists then (reply 409 ''OrgName already exists'' NoDetails, st)
               else
                 (case generateOrgId rt orgs of
                    Inl e \<Rightarrow> (reply 500 (error_message e) NoDetails, st)
                  | Inr newId \<Rightarrow>
                      let newOrg = \<lparr>ORG_ID = IdNum newId, ORG_NAME = orgName\<rparr>
                      in (reply 200 ''Org created successfully'' (OrgDetails newOrg),
                          st\<lparr>ORG_FILE := orgs @ [newOrg]\<rparr>)))"

definition getOrgConfig :: "runtime \<Rightarrow> request \<Rightarrow> store \<Rightarrow> response \<times> store" where
  "getOrgConfig rt req st =
     (case req_orgId req of
        None \<Rightarrow> (reply 400 ''Missing orgId'' NoDetails, st)
      | Some orgId \<Rightarrow>
          if orgId = [] then (reply 400 ''Missing orgId'' NoDetails, st)
          else
            let orgs = ORG_FILE st;
                orgExists = list_ex (\<lambda>org. ToString rt (ORG_ID org) = orgId) orgs
            in if \<not> orgExists then (reply 500 ''OrgId not found'' NoDetails, st)
               else
                 (reply 200 ''Org config fetched successfully''
                    (ConfigDetails (resolveConfig (CONFIG_FILE st) orgId)), st))"

text \<open>
  The \<^verbatim>\<open>ORG_ID\<close> of an organization created on the way, as the file keeps it:
  \<^verbatim>\<open>Number.isNaN(Number(orgId)) ? orgId : Number(orgId)\<close>.
\<close>

definition autoOrgId :: "runtime \<Rightarrow> string \<Rightarrow> org_id" where
  "autoOrgId rt orgId =
     (case StringToNumber rt orgId of
        NaN \<Rightarrow> IdStr orgId
      | Fin r \<Rightarrow> IdNum r
      | _ \<Rightarrow> IdNull)"

text \<open>
  Lines 220 to 229: a \<^verbatim>\<open>config\<close> that is a string is decoded, \<open>None\<close> where
  \<^verbatim>\<open>JSON.parse\<close> throws; any other value is taken as it is.
\<close>

definition decodeConfig :: "runtime \<Rightarrow> jsval \<Rightarrow> jsval option" where
  "decodeConfig rt config =
     (case config of JStr text \<Rightarrow> JSON_parse rt text | _ \<Rightarrow> Some config)"

text \<open>
  Lines 246 to 261: the organization list after the handler has made sure that it holds
  an organization for \<open>orgId\<close>.
\<close>

definition ensureOrg :: "runtime \<Rightarrow> request \<Rightarrow> string \<Rightarrow> org list \<Rightarrow> org list" where
  "ensureOrg rt req orgId orgs =
     (case find (\<lambda>org. ToString rt (ORG_ID org) = orgId) orgs of
        Some existingOrg \<Rightarrow> orgs
      | None \<Rightarrow>
          orgs @
          [\<lparr>ORG_ID = autoOrgId rt orgId,
            ORG_NAME =
              (case req_orgName req of
                 None \<Rightarrow> ''Org-'' @ orgId
               | Some orgName \<Rightarrow> if orgName = [] then ''Org-'' @ orgId else orgName)\<rparr>])"

definition updateOrgConfig :: "runtime \<Rightarrow> request \<Rightarrow> store \<Rightarrow> response \<times> store" where
  "updateOrgConfig rt req st =
     (if blank (req_orgId req) \<or> falsy (req_config req)
      then (reply 400 ''Missing orgId or config'' NoDetails, st)
      else
        (case (req_orgId req, req_config req) of
           (Some orgId, Some config) \<Rightarrow>
             (case decodeConfig rt config of
                None \<Rightarrow> (reply 400 ''Invalid JSON in config field'' NoDetails, st)
              | Some incoming \<Rightarrow>
                  let configs = CONFIG_FILE st;
                      merged = mergedConfig (existingConfig configs orgId) incoming;
                      configs' = assign_prop configs orgId merged;
                      orgs' = ensureOrg rt req orgId (ORG_FILE st)
                  in (reply 200 ''Org config updated successfully'' (ConfigDetails merged),
                      \<lparr>CONFIG_FILE = configs', ORG_FILE = orgs'\<rparr>))
         | _ \<Rightarrow> (reply 400 ''Missing orgId or config'' NoDetails, st)))"

text \<open>The single entry point \<^verbatim>\<open>POST /api/v2/crawler\<close>: the switch on \<^verbatim>\<open>action\<close>.\<close>

definition crawler :: "runtime \<Rightarrow> request \<Rightarrow> store \<Rightarrow> response \<times> store" where
  "crawler rt req st =
     (case req_action req of
        None \<Rightarrow> (reply 400 ''Missing action parameter'' NoDetails, st)
      | Some action \<Rightarrow>
          if action = [] then (reply 400 ''Missing action parameter'' NoDetails, st)
          else if action = ''getAllOrg'' then getAllOrg st
          else if action = ''createOrg'' then createOrg rt req st
          else if action = ''getOrgConfig'' then getOrgConfig rt req st
          else if action = ''updateOrgConfig'' then updateOrgConfig rt req st
          else (reply 400 (''Unknown action: '' @ action) NoDetails, st))"

section \<open>A runtime for the evaluations\<close>

text \<open>
  The closed evaluations below need a runtime. This one answers as Node does on the inputs
  they use: a name such as \<^verbatim>\<open>toString\<close> or \<^verbatim>\<open>abc\<close> is not a number, the text \<^verbatim>\<open>{}\<close>
  decodes to the empty object, and the text \<^verbatim>\<open>{\<close> does not decode.
\<close>

definition sample_runtime :: runtime where
  "sample_runtime =
     \<lparr>StringToNumber_rest = (\<lambda>s. NaN),
      NumberToString_rest = (\<lambda>r. []),
      JSON_parse = (\<lambda>s. if s = ''{}'' then Some (JObj []) else None)\<rparr>"

section \<open>Rounding to doubles\<close>

text \<open>
  The rounding moves a number of the two ranges by at most \<open>2^-13\<close>, keeps the multiples
  of \<open>2^-12\<close> (and those of \<open>2^-13\<close> below \<open>2^40\<close>) as they are, and yields nothing
  else there.
\<close>

lemma round_half_even_bounds:
  "y - 1 / 2 \<le> of_int (round_half_even y)" "of_int (round_half_even y) \<le> y + 1 / 2"
proof -
  define f where "f = \<lfloor>y\<rfloor>"
  define d where "d = y - of_int f"
  have fl: "of_int f \<le> y" "y < of_int f + 1"
    unfolding f_def by linarith+
  have r: "round_half_even y =
      (if d < 1 / 2 then f else if 1 / 2 < d then f + 1 else if even f then f else f + 1)"
    by (simp add: round_half_even_def f_def d_def Let_def)
  consider "d < 1 / 2" | "1 / 2 < d" | "d = 1 / 2" by linarith
  then show "y - 1 / 2 \<le> of_int (round_half_even y)"
    "of_int (round_half_even y) \<le> y + 1 / 2"
    using fl unfolding r d_def by (cases; simp; linarith)+
qed

lemma round_half_even_of_int: "round_half_even (of_int k) = k"
  by (simp add: round_half_even_def)

lemma to_double_near:
  assumes "2 ^ 39 \<le> x" "x < 2 ^ 41"
  shows "x - 1 / 8192 \<le> to_double x" "to_double x \<le> x + 1 / 8192"
proof -
  have a: "x * 8192 - 1 / 2 \<le> of_int (round_half_even (x * 8192))"
    "of_int (round_half_even (x * 8192)) \<le> x * 8192 + 1 / 2"
    by (rule round_half_even_bounds)+
  have b: "x * 4096 - 1 / 2 \<le> of_int (round_half_even (x * 4096))"
    "of_int (round_half_even (x * 4096)) \<le> x * 4096 + 1 / 2"
    by (rule round_half_even_bounds)+
  show "x - 1 / 8192 \<le> to_double x" "to_double x \<le> x + 1 / 8192"
    using assms a b by (auto simp: to_double_def field_simps)
qed

lemma to_double_grid:
  assumes "x = of_int k / 4096"
  shows "to_double x = x"
proof -
  have "x * 2 ^ 12 = of_int k" "x * 2 ^ 13 = of_int (2 * k)"
    using assms by simp_all
  then have "of_int (round_half_even (x * 2 ^ 12)) / 2 ^ 12 = x"
    "of_int (round_half_even (x * 2 ^ 13)) / 2 ^ 13 = x"
    by (simp_all only: round_half_even_of_int) (simp_all add: assms)
  then show ?thesis
    unfolding to_double_def by simp
qed

lemma to_double_of_int: "to_double (of_int k) = of_int k"
  by (rule to_double_grid [of _ "4096 * k"]) simp

lemma to_double_of_nat: "to_double (of_nat n) = of_nat n"
  using to_double_of_int [of "int n"] by simp

lemma to_double_on_grid:
  assumes "to_double x = y" "2 ^ 40 \<le> y" "y < 2 ^ 41"
  shows "\<exists>k. y = of_int k / 4096"
proof -
  consider "2 ^ 39 \<le> x \<and> x < 2 ^ 40" | "2 ^ 40 \<le> x \<and> x < 2 ^ 41"
    | "\<not> (2 ^ 39 \<le> x \<and> x < 2 ^ 40) \<and> \<not> (2 ^ 40 \<le> x \<and> x < 2 ^ 41)" by blast
  then show ?thesis
  proof cases
    case 1
    let ?j = "round_half_even (x * 8192)"
    have y: "y = of_int ?j / 8192" using 1 assms(1) by (simp add: to_double_def)
    have "of_int ?j \<le> x * 8192 + 1 / 2" by (rule round_half_even_bounds)
    with 1 have "(of_int ?j :: rat) < 9007199254740992 + 1 / 2" by simp
    then have "(of_int ?j :: rat) < of_int 9007199254740993" by simp
    then have u: "?j \<le> 9007199254740992" unfolding of_int_less_iff by simp
    from assms(2) y have "(of_int 9007199254740992 :: rat) \<le> of_int ?j" by simp
    then have "9007199254740992 \<le> ?j" unfolding of_int_le_iff .
    with u have "?j = 9007199254740992" by simp
    with y have "y = of_int 4503599627370496 / 4096" by simp
    then show ?thesis by blast
  next
    case 2
    then have "y = of_int (round_half_even (x * 4096)) / 4096"
      using assms(1) by (simp add: to_double_def)
    then show ?thesis by blast
  next
    case 3
    then have "to_double x = x" unfolding to_double_def by auto
    with assms(1) have "y = x" by simp
    with 3 assms(2,3) show ?thesis by auto
  qed
qed

lemma to_double_grid13:
  assumes "x = of_int k / 8192" and "x < 2 ^ 40"
  shows "to_double x = x"
proof -
  have "x * 2 ^ 13 = of_int k"
    using assms(1) by simp
  then have "of_int (round_half_even (x * 2 ^ 13)) / 2 ^ 13 = x"
    by (simp only: round_half_even_of_int) (simp add: assms(1))
  with assms(2) show ?thesis
    unfolding to_double_def by simp
qed

lemma to_double_on_grid13:
  assumes "to_double x = y" "2 ^ 39 \<le> y" "y < 2 ^ 40"
  shows "\<exists>k. y = of_int k / 8192"
proof -
  consider "2 ^ 39 \<le> x \<and> x < 2 ^ 40" | "2 ^ 40 \<le> x \<and> x < 2 ^ 41"
    | "\<not> (2 ^ 39 \<le> x \<and> x < 2 ^ 40) \<and> \<not> (2 ^ 40 \<le> x \<and> x < 2 ^ 41)" by blast
  then show ?thesis
  proof cases
    case 1
    then have "y = of_int (round_half_even (x * 8192)) / 8192"
      using assms(1) by (simp add: to_double_def)
    then show ?thesis by blast
  next
    case 2
    then have "y = of_int (round_half_even (x * 4096)) / 4096"
      using assms(1) by (simp add: to_double_def)
    then have "y = of_int (2 * round_half_even (x * 4096)) / 8192" by simp
    then show ?thesis by blast
  next
    case 3
    then have "to_double x = x" unfolding to_double_def by auto
    with assms(1) have "y = x" by simp
    with 3 assms(2,3) show ?thesis by auto
  qed
qed

text \<open>What \<^verbatim>\<open>Number(o.ORG_ID)\<close> yields inside the two ranges is a double.\<close>

lemma StringToNumber_cases:
  assumes "StringToNumber rt s = Fin y"
  shows "(\<exists>n. y = of_nat n) \<or> (\<exists>r. y = to_double r)"
proof (cases "s \<noteq> [] \<and> length s \<le> 15 \<and> list_all is_digit s")
  case True
  with assms show ?thesis by (auto simp: StringToNumber_def)
next
  case False
  with assms have "as_double (StringToNumber_rest rt s) = Fin y"
    by (simp add: StringToNumber_def)
  then show ?thesis
    by (cases "StringToNumber_rest rt s") auto
qed

lemma ToNumber_cases:
  assumes "ToNumber rt i = Fin y"
  shows "(\<exists>k. y = of_int k) \<or> (\<exists>r. y = to_double r)"
proof (cases i)
  case IdNull
  with assms have "y = of_int 0" by simp
  then show ?thesis by blast
next
  case (IdNum r)
  with assms show ?thesis by auto
next
  case (IdStr s)
  with assms have "StringToNumber rt s = Fin y" by simp
  then have "(\<exists>n. y = of_nat n) \<or> (\<exists>r. y = to_double r)"
    by (rule StringToNumber_cases)
  then show ?thesis
  proof
    assume "\<exists>n. y = of_nat n"
    then obtain n where "y = of_nat n" ..
    then have "y = of_int (int n)" by simp
    then show ?thesis by blast
  qed blast
qed

lemma ToNumber_on_grid:
  assumes "ToNumber rt i = Fin y" "2 ^ 40 \<le> y" "y < 2 ^ 41"
  shows "\<exists>k. y = of_int k / 4096"
proof -
  from assms(1) have "(\<exists>k. y = of_int k) \<or> (\<exists>r. y = to_double r)"
    by (rule ToNumber_cases)
  then show ?thesis
  proof
    assume "\<exists>k. y = of_int k"
    then obtain k where "y = of_int k" ..
    then have "y = of_int (4096 * k) / 4096" by simp
    then show ?thesis by blast
  next
    assume "\<exists>r. y = to_double r"
    then obtain r where "to_double r = y" by auto
    then show ?thesis using assms(2,3) by (rule to_double_on_grid)
  qed
qed

lemma ToNumber_on_grid13:
  assumes "ToNumber rt i = Fin y" "2 ^ 39 \<le> y" "y < 2 ^ 40"
  shows "\<exists>k. y = of_int k / 8192"
proof -
  from assms(1) have "(\<exists>k. y = of_int k) \<or> (\<exists>r. y = to_double r)"
    by (rule ToNumber_cases)
  then show ?thesis
  proof
    assume "\<exists>k. y = of_int k"
    then obtain k where "y = of_int k" ..
    then have "y = of_int (8192 * k) / 8192" by simp
    then show ?thesis by blast
  next
    assume "\<exists>r. y = to_double r"
    then obtain r where "to_double r = y" by auto
    then show ?thesis using assms(2,3) by (rule to_double_on_grid13)
  qed
qed

section \<open>The allocator\<close>

text \<open>The loop computes a running maximum over the in-range ids.\<close>

lemma generateOrgId_loop_fold:
  "generateOrgId_loop rt orgs m = fold max (observed_ids rt orgs) m"
  by (induction orgs arbitrary: m)
     (auto simp: observed_ids_def in_range_def id_number_def max_def split: jsnum.splits)

lemma fold_max_Max:
  "fold max xs (m::rat) = Max (set xs \<union> {m})"
proof -
  have "Max (set (m # xs)) = fold max xs m"
    by (rule Max.set_eq_fold)
  then show ?thesis by simp
qed

lemma generateOrgId_loop_candidate:
  "generateOrgId_loop rt orgs (MIN_ORG_ID - 1) + 1 = candidate rt orgs"
  by (simp add: generateOrgId_loop_fold fold_max_Max candidate_def)

lemma generateOrgId_candidate:
  "generateOrgId rt orgs =
     (if MAX_ORG_ID < to_double (candidate rt orgs) then Inl RangeExhausted
      else Inr (to_double (candidate rt orgs)))"
  by (simp add: generateOrgId_def generateOrgId_loop_candidate Let_def)

lemma observed_below_candidate:
  assumes "x \<in> set (observed_ids rt orgs)"
  shows "x \<le> candidate rt orgs - 1"
proof -
  have "x \<le> Max (set (observed_ids rt orgs) \<union> {MIN_ORG_ID - 1})"
    by (rule Max_ge) (use assms in auto)
  then show ?thesis by (simp add: candidate_def)
qed

lemma in_range_observed:
  assumes "org \<in> set orgs" and "ToNumber rt (ORG_ID org) = Fin x"
    and "MIN_ORG_ID \<le> x" and "x \<le> MAX_ORG_ID"
  shows "x \<in> set (observed_ids rt orgs)"
proof -
  have "in_range rt org" and "id_number rt org = x"
    using assms by (simp_all add: in_range_def id_number_def)
  with assms(1) show ?thesis
    unfolding observed_ids_def by force
qed

lemma observed_in_range:
  assumes "x \<in> set (observed_ids rt orgs)"
  shows "\<exists>i. ToNumber rt i = Fin x \<and> MIN_ORG_ID \<le> x \<and> x \<le> MAX_ORG_ID"
proof -
  from assms obtain org where "in_range rt org" and "x = id_number rt org"
    unfolding observed_ids_def by auto
  then have "ToNumber rt (ORG_ID org) = Fin x \<and> MIN_ORG_ID \<le> x \<and> x \<le> MAX_ORG_ID"
    by (cases "ToNumber rt (ORG_ID org)") (simp_all add: in_range_def id_number_def)
  then show ?thesis by blast
qed

lemma observed_ids_filter:
  "observed_ids rt (filter (in_range rt) orgs) = observed_ids rt orgs"
  by (simp add: observed_ids_def)

lemma candidate_filter:
  "candidate rt (filter (in_range rt) orgs) = candidate rt orgs"
  by (simp add: candidate_def observed_ids_filter)

lemma candidate_no_observed:
  "observed_ids rt orgs = [] \<Longrightarrow> candidate rt orgs = MIN_ORG_ID"
  by (simp add: candidate_def)

text \<open>
  The candidate is \<open>MIN_ORG_ID\<close> or an observed id plus one, so it lies between
  \<open>MIN_ORG_ID\<close> and \<open>MAX_ORG_ID + 1\<close>, inside the two ranges of the rounding.
\<close>

lemma candidate_cases:
  "candidate rt orgs = MIN_ORG_ID
   \<or> (\<exists>i. ToNumber rt i = Fin (candidate rt orgs - 1)
          \<and> MIN_ORG_ID \<le> candidate rt orgs - 1 \<and> candidate rt orgs - 1 \<le> MAX_ORG_ID)"
proof -
  let ?S = "set (observed_ids rt orgs) \<union> {MIN_ORG_ID - 1}"
  have "Max ?S \<in> ?S" by (rule Max_in) simp_all
  then have "Max ?S = MIN_ORG_ID - 1 \<or> Max ?S \<in> set (observed_ids rt orgs)" by auto
  then show ?thesis
  proof
    assume "Max ?S = MIN_ORG_ID - 1"
    then show ?thesis by (simp add: candidate_def)
  next
    assume "Max ?S \<in> set (observed_ids rt orgs)"
    then have "\<exists>i. ToNumber rt i = Fin (Max ?S) \<and> MIN_ORG_ID \<le> Max ?S \<and> Max ?S \<le> MAX_ORG_ID"
      by (rule observed_in_range)
    then show ?thesis by (simp add: candidate_def)
  qed
qed

lemma candidate_bounds:
  "MIN_ORG_ID \<le> candidate rt orgs" "candidate rt orgs \<le> MAX_ORG_ID + 1"
  using candidate_cases [of rt orgs] by (auto simp: MIN_ORG_ID_def MAX_ORG_ID_def)

lemma to_double_candidate_near:
  "candidate rt orgs - 1 / 8192 \<le> to_double (candidate rt orgs)"
  "to_double (candidate rt orgs) \<le> candidate rt orgs + 1 / 8192"
proof -
  have "2 ^ 39 \<le> candidate rt orgs" "candidate rt orgs < 2 ^ 41"
    using candidate_bounds [of rt orgs] by (simp_all add: MIN_ORG_ID_def MAX_ORG_ID_def)
  then show "candidate rt orgs - 1 / 8192 \<le> to_double (candidate rt orgs)"
    "to_double (candidate rt orgs) \<le> candidate rt orgs + 1 / 8192"
    by (rule to_double_near)+
qed

text \<open>
  The sum is rounded only when the greatest in-range id lies in \<open>[2^40 - 1, 2^40)\<close>:
  below, the id and the sum are multiples of \<open>2^-13\<close> under \<open>2^40\<close>; above, they are
  multiples of \<open>2^-12\<close>.
\<close>

lemma to_double_candidate_exact:
  assumes "candidate rt orgs < 2 ^ 40 \<or> 2 ^ 40 + 1 \<le> candidate rt orgs"
  shows "to_double (candidate rt orgs) = candidate rt orgs"
proof -
  let ?c = "candidate rt orgs"
  from candidate_cases [of rt orgs] show ?thesis
  proof
    assume "?c = MIN_ORG_ID"
    then have "?c = of_int 4096000000000000 / 4096" by (simp add: MIN_ORG_ID_def)
    then show ?thesis by (rule to_double_grid)
  next
    assume "\<exists>i. ToNumber rt i = Fin (?c - 1) \<and> MIN_ORG_ID \<le> ?c - 1 \<and> ?c - 1 \<le> MAX_ORG_ID"
    then obtain i where i: "ToNumber rt i = Fin (?c - 1)"
      and b: "MIN_ORG_ID \<le> ?c - 1" "?c - 1 \<le> MAX_ORG_ID" by blast
    from assms show ?thesis
    proof
      assume low: "?c < 2 ^ 40"
      have "\<exists>k. ?c - 1 = of_int k / 8192"
        using i by (rule ToNumber_on_grid13) (use b low in \<open>simp_all add: MIN_ORG_ID_def\<close>)
      then obtain k where "?c - 1 = of_int k / 8192" ..
      then have "?c = of_int (k + 8192) / 8192" by (simp add: field_simps)
      then show ?thesis using low by (rule to_double_grid13)
    next
      assume high: "2 ^ 40 + 1 \<le> ?c"
      have "\<exists>k. ?c - 1 = of_int k / 4096"
        using i by (rule ToNumber_on_grid) (use b high in \<open>simp_all add: MAX_ORG_ID_def\<close>)
      then obtain k where "?c - 1 = of_int k / 4096" ..
      then have "?c = of_int (k + 4096) / 4096" by (simp add: field_simps)
      then show ?thesis by (rule to_double_grid)
    qed
  qed
qed

text \<open>The rounding does not move the sum across \<open>MAX_ORG_ID\<close>.\<close>

lemma exhausted_iff:
  "MAX_ORG_ID < to_double (candidate rt orgs) \<longleftrightarrow> MAX_ORG_ID < candidate rt orgs"
proof (cases "candidate rt orgs < 2 ^ 40 \<or> 2 ^ 40 + 1 \<le> candidate rt orgs")
  case True
  then show ?thesis by (simp only: to_double_candidate_exact)
next
  case False
  then have "candidate rt orgs < 2 ^ 40 + 1" by simp
  moreover have "to_double (candidate rt orgs) \<le> candidate rt orgs + 1 / 8192"
    by (rule to_double_candidate_near)
  ultimately show ?thesis by (simp add: MAX_ORG_ID_def)
qed

lemma generateOrgId_exhausted:
  "generateOrgId rt orgs =
     (if MAX_ORG_ID < candidate rt orgs then Inl RangeExhausted
      else Inr (to_double (candidate rt orgs)))"
  by (simp add: generateOrgId_candidate exhausted_iff)

text \<open>
  Claim C1, as stated, at two lists. The first holds the id \<open>MAX_ORG_ID\<close>: the candidate
  is \<open>2000000000000\<close>, and \<open>generateOrgId\<close> throws instead of returning it. The second
  holds the double \<open>2^40 - 1 + 2^-13\<close>, inside the band: the candidate does not exceed
  \<open>MAX_ORG_ID\<close> and is no double, and \<open>generateOrgId\<close> returns the double \<open>2^40\<close>
  next to it.
\<close>

theorem C1_counterexample:
  "candidate sample_runtime [\<lparr>ORG_ID = IdNum 1999999999999, ORG_NAME = ''Acme''\<rparr>]
     = 2000000000000
   \<and> generateOrgId sample_runtime [\<lparr>ORG_ID = IdNum 1999999999999, ORG_NAME = ''Acme''\<rparr>]
     = Inl RangeExhausted
   \<and> generateOrgId sample_runtime [\<lparr>ORG_ID = IdNum 1999999999999, ORG_NAME = ''Acme''\<rparr>]
     \<noteq> Inr (candidate sample_runtime
               [\<lparr>ORG_ID = IdNum 1999999999999, ORG_NAME = ''Acme''\<rparr>])
   \<and> candidate sample_runtime
       [\<lparr>ORG_ID = IdNum (9007199254732801 / 8192), ORG_NAME = ''Acme''\<rparr>]
     = 9007199254740993 / 8192
   \<and> generateOrgId sample_runtime
       [\<lparr>ORG_ID = IdNum (9007199254732801 / 8192), ORG_NAME = ''Acme''\<rparr>]
     = Inr 1099511627776
   \<and> generateOrgId sample_runtime
       [\<lparr>ORG_ID = IdNum (9007199254732801 / 8192), ORG_NAME = ''Acme''\<rparr>]
     \<noteq> Inr (candidate sample_runtime
               [\<lparr>ORG_ID = IdNum (9007199254732801 / 8192), ORG_NAME = ''Acme''\<rparr>])"
proof -
  let ?top = "[\<lparr>ORG_ID = IdNum 1999999999999, ORG_NAME = ''Acme''\<rparr>]"
  let ?odd = "[\<lparr>ORG_ID = IdNum (9007199254732801 / 8192), ORG_NAME = ''Acme''\<rparr>]"
  have f: "\<lfloor>9007199254740993 / 2 :: rat\<rfloor> = 4503599627370496"
    by (simp add: floor_eq_iff)
  have t: "to_double 1999999999999 = 1999999999999"
    by (simp add: to_double_def round_half_even_def)
  have o: "to_double (9007199254732801 / 8192) = 9007199254732801 / 8192"
    by (simp add: to_double_def round_half_even_def)
  have r: "to_double (9007199254740993 / 8192) = 1099511627776"
    by (simp add: to_double_def round_half_even_def Let_def f)
  have c1: "candidate sample_runtime ?top = 2000000000000"
    by (simp add: candidate_def observed_ids_def in_range_def id_number_def t
        MIN_ORG_ID_def MAX_ORG_ID_def)
  have c2: "candidate sample_runtime ?odd = 9007199254740993 / 8192"
    by (simp add: candidate_def observed_ids_def in_range_def id_number_def o
        MIN_ORG_ID_def MAX_ORG_ID_def)
  have g1: "generateOrgId sample_runtime ?top = Inl RangeExhausted"
    by (simp add: generateOrgId_exhausted c1 MAX_ORG_ID_def)
  have g2: "generateOrgId sample_runtime ?odd = Inr 1099511627776"
    by (simp add: generateOrgId_exhausted c2 r MAX_ORG_ID_def)
  from c1 c2 g1 g2 show ?thesis by simp
qed

text \<open>
  Claim C1, amended: for every sequence of organizations whose candidate, the maximum of
  the observed in-range ids and \<open>MIN_ORG_ID - 1\<close> plus one, does not exceed
  \<open>MAX_ORG_ID\<close>, \<open>generateOrgId\<close> returns that candidate as the addition of doubles
  gives it: the candidate itself when it is an integer, and whenever the greatest
  in-range id lies outside \<open>[2^40 - 1, 2^40)\<close>; otherwise the double nearest to it, at
  most \<open>2^-13\<close> away. The returned id is strictly greater than every id of the input
  that is a finite number inside \<open>[1000000000000, 1999999999999]\<close>; the organizations
  whose id is outside the band or not a number are ignored (dropping them changes
  nothing); and the result is \<open>MIN_ORG_ID\<close> when no in-range id is present, in
  particular on the empty list.
\<close>

theorem C1_allocate:
  assumes "candidate rt orgs \<le> MAX_ORG_ID"
  shows "generateOrgId rt orgs = Inr (to_double (candidate rt orgs))
    \<and> (of_int \<lfloor>candidate rt orgs\<rfloor> = candidate rt orgs
        \<longrightarrow> generateOrgId rt orgs = Inr (candidate rt orgs))
    \<and> (candidate rt orgs < 2 ^ 40 \<or> 2 ^ 40 + 1 \<le> candidate rt orgs
        \<longrightarrow> generateOrgId rt orgs = Inr (candidate rt orgs))
    \<and> candidate rt orgs - 1 / 8192 \<le> to_double (candidate rt orgs)
    \<and> to_double (candidate rt orgs) \<le> candidate rt orgs + 1 / 8192
    \<and> (\<forall>org\<in>set orgs. \<forall>x.
          ToNumber rt (ORG_ID org) = Fin x \<and> MIN_ORG_ID \<le> x \<and> x \<le> MAX_ORG_ID
          \<longrightarrow> x < to_double (candidate rt orgs))
    \<and> generateOrgId rt (filter (in_range rt) orgs) = generateOrgId rt orgs
    \<and> (observed_ids rt orgs = [] \<longrightarrow> generateOrgId rt orgs = Inr MIN_ORG_ID)
    \<and> generateOrgId rt [] = Inr MIN_ORG_ID"
proof (intro conjI)
  show g: "generateOrgId rt orgs = Inr (to_double (candidate rt orgs))"
    using assms by (simp add: generateOrgId_exhausted)
  show "of_int \<lfloor>candidate rt orgs\<rfloor> = candidate rt orgs
        \<longrightarrow> generateOrgId rt orgs = Inr (candidate rt orgs)"
  proof
    assume a: "of_int \<lfloor>candidate rt orgs\<rfloor> = candidate rt orgs"
    have "to_double (of_int \<lfloor>candidate rt orgs\<rfloor>) = of_int \<lfloor>candidate rt orgs\<rfloor>"
      by (rule to_double_of_int)
    then have "to_double (candidate rt orgs) = candidate rt orgs"
      by (simp only: a)
    with g show "generateOrgId rt orgs = Inr (candidate rt orgs)" by simp
  qed
  show "candidate rt orgs < 2 ^ 40 \<or> 2 ^ 40 + 1 \<le> candidate rt orgs
        \<longrightarrow> generateOrgId rt orgs = Inr (candidate rt orgs)"
  proof
    assume "candidate rt orgs < 2 ^ 40 \<or> 2 ^ 40 + 1 \<le> candidate rt orgs"
    then have "to_double (candidate rt orgs) = candidate rt orgs"
      by (rule to_double_candidate_exact)
    with g show "generateOrgId rt orgs = Inr (candidate rt orgs)" by simp
  qed
  show n: "candidate rt orgs - 1 / 8192 \<le> to_double (candidate rt orgs)"
    and "to_double (candidate rt orgs) \<le> candidate rt orgs + 1 / 8192"
    by (rule to_double_candidate_near)+
  show "\<forall>org\<in>set orgs. \<forall>x.
          ToNumber rt (ORG_ID org) = Fin x \<and> MIN_ORG_ID \<le> x \<and> x \<le> MAX_ORG_ID
          \<longrightarrow> x < to_double (candidate rt orgs)"
  proof (intro ballI allI impI)
    fix org x
    assume "org \<in> set orgs"
      and "ToNumber rt (ORG_ID org) = Fin x \<and> MIN_ORG_ID \<le> x \<and> x \<le> MAX_ORG_ID"
    then have "x \<in> set (observed_ids rt orgs)"
      by (blast intro: in_range_observed)
    then have "x \<le> candidate rt orgs - 1"
      by (rule observed_below_candidate)
    with n show "x < to_double (candidate rt orgs)" by simp
  qed
  show "generateOrgId rt (filter (in_range rt) orgs) = generateOrgId rt orgs"
    by (simp add: generateOrgId_candidate candidate_filter)
  have m: "to_double 1000000000000 = 1000000000000"
    using to_double_of_int [of 1000000000000] by simp
  show "observed_ids rt orgs = [] \<longrightarrow> generateOrgId rt orgs = Inr MIN_ORG_ID"
    by (simp add: generateOrgId_exhausted candidate_no_observed m MIN_ORG_ID_def
        MAX_ORG_ID_def)
  have "candidate rt [] = MIN_ORG_ID"
    by (simp add: candidate_no_observed observed_ids_def)
  then show "generateOrgId rt [] = Inr MIN_ORG_ID"
    by (simp add: generateOrgId_exhausted m MIN_ORG_ID_def MAX_ORG_ID_def)
qed

text \<open>
  The amended C1 at a list with two in-range ids, an id that is not a number and an id
  below the band: the next id is \<open>1000000000008\<close>.
\<close>

theorem C1_allocate_witness:
  "candidate sample_runtime
     [\<lparr>ORG_ID = IdNum 1000000000000, ORG_NAME = ''Acme''\<rparr>,
      \<lparr>ORG_ID = IdStr ''abc'', ORG_NAME = ''Beta''\<rparr>,
      \<lparr>ORG_ID = IdNum 5, ORG_NAME = ''Gamma''\<rparr>,
      \<lparr>ORG_ID = IdNum 1000000000007, ORG_NAME = ''Delta''\<rparr>] \<le> MAX_ORG_ID
   \<and> generateOrgId sample_runtime
     [\<lparr>ORG_ID = IdNum 1000000000000, ORG_NAME = ''Acme''\<rparr>,
      \<lparr>ORG_ID = IdStr ''abc'', ORG_NAME = ''Beta''\<rparr>,
      \<lparr>ORG_ID = IdNum 5, ORG_NAME = ''Gamma''\<rparr>,
      \<lparr>ORG_ID = IdNum 1000000000007, ORG_NAME = ''Delta''\<rparr>] = Inr 1000000000008"
proof -
  let ?orgs = "[\<lparr>ORG_ID = IdNum 1000000000000, ORG_NAME = ''Acme''\<rparr>,
      \<lparr>ORG_ID = IdStr ''abc'', ORG_NAME = ''Beta''\<rparr>,
      \<lparr>ORG_ID = IdNum 5, ORG_NAME = ''Gamma''\<rparr>,
      \<lparr>ORG_ID = IdNum 1000000000007, ORG_NAME = ''Delta''\<rparr>]"
  have d: "to_double 1000000000000 = 1000000000000" "to_double 5 = 5"
    "to_double 1000000000007 = 1000000000007"
    by (simp_all add: to_double_def round_half_even_def)
  have c: "candidate sample_runtime ?orgs = 1000000000008"
    by (simp add: candidate_def observed_ids_def in_range_def id_number_def d MIN_ORG_ID_def
        MAX_ORG_ID_def sample_runtime_def StringToNumber_def is_digit_def)
  then have h: "candidate sample_runtime ?orgs \<le> MAX_ORG_ID"
    by (simp add: MAX_ORG_ID_def)
  have i: "of_int \<lfloor>candidate sample_runtime ?orgs\<rfloor> = candidate sample_runtime ?orgs"
    by (simp add: c)
  from C1_allocate [OF h]
  have "of_int \<lfloor>candidate sample_runtime ?orgs\<rfloor> = candidate sample_runtime ?orgs
      \<longrightarrow> generateOrgId sample_runtime ?orgs = Inr (candidate sample_runtime ?orgs)"
    by blast
  with i have "generateOrgId sample_runtime ?orgs = Inr (candidate sample_runtime ?orgs)"
    by blast
  with c h show ?thesis by simp
qed

text \<open>
  Claim C5: \<open>generateOrgId\<close> fails with \<open>RangeExhausted\<close> exactly when the candidate
  exceeds \<open>MAX_ORG_ID\<close>; in particular, for every list that holds an organization whose
  id is \<open>MAX_ORG_ID\<close>, it fails with \<open>RangeExhausted\<close> and returns no id.
\<close>

theorem C5_range_exhausted:
  "(generateOrgId rt orgs = Inl RangeExhausted \<longleftrightarrow> MAX_ORG_ID < candidate rt orgs)
   \<and> ((\<exists>org\<in>set orgs. ToNumber rt (ORG_ID org) = Fin MAX_ORG_ID)
        \<longrightarrow> generateOrgId rt orgs = Inl RangeExhausted
            \<and> (\<forall>n. generateOrgId rt orgs \<noteq> Inr n))"
proof (intro conjI impI)
  show "generateOrgId rt orgs = Inl RangeExhausted \<longleftrightarrow> MAX_ORG_ID < candidate rt orgs"
    by (simp add: generateOrgId_exhausted)
next
  assume "\<exists>org\<in>set orgs. ToNumber rt (ORG_ID org) = Fin MAX_ORG_ID"
  then obtain org where "org \<in> set orgs" and "ToNumber rt (ORG_ID org) = Fin MAX_ORG_ID"
    by blast
  then have "MAX_ORG_ID \<in> set (observed_ids rt orgs)"
    by (rule in_range_observed) (simp_all add: MIN_ORG_ID_def MAX_ORG_ID_def)
  then have "MAX_ORG_ID \<le> candidate rt orgs - 1"
    by (rule observed_below_candidate)
  then have "MAX_ORG_ID < candidate rt orgs" by simp
  then show "generateOrgId rt orgs = Inl RangeExhausted"
    and "\<forall>n. generateOrgId rt orgs \<noteq> Inr n"
    by (simp_all add: generateOrgId_exhausted)
qed

text \<open>C5 at a list whose second organization has the id \<open>MAX_ORG_ID\<close>.\<close>

theorem C5_range_exhausted_witness:
  "(\<exists>org\<in>set [\<lparr>ORG_ID = IdNum 1000000000000, ORG_NAME = ''Acme''\<rparr>,
               \<lparr>ORG_ID = IdNum 1999999999999, ORG_NAME = ''Omega''\<rparr>].
      ToNumber sample_runtime (ORG_ID org) = Fin MAX_ORG_ID)
   \<and> generateOrgId sample_runtime
       [\<lparr>ORG_ID = IdNum 1000000000000, ORG_NAME = ''Acme''\<rparr>,
        \<lparr>ORG_ID = IdNum 1999999999999, ORG_NAME = ''Omega''\<rparr>] = Inl RangeExhausted"
proof -
  let ?orgs = "[\<lparr>ORG_ID = IdNum 1000000000000, ORG_NAME = ''Acme''\<rparr>,
                \<lparr>ORG_ID = IdNum 1999999999999, ORG_NAME = ''Omega''\<rparr>]"
  have "to_double 1999999999999 = 1999999999999"
    by (simp add: to_double_def round_half_even_def)
  then have h: "\<exists>org\<in>set ?orgs. ToNumber sample_runtime (ORG_ID org) = Fin MAX_ORG_ID"
    by (simp add: MAX_ORG_ID_def)
  with C5_range_exhausted [of sample_runtime ?orgs] show ?thesis by blast
qed

section \<open>Objects and the merge\<close>

text \<open>
  Defining a property sets its value and leaves every other key as it was; the keys of
  the object stay distinct.
\<close>

lemma map_of_replace_value:
  "k \<in> set (map fst ps) \<Longrightarrow>
   map_of (replace_value k v ps) x = (if x = k then Some v else map_of ps x)"
  by (induction ps) force+

lemma keys_replace_value:
  "map fst (replace_value k v ps) = map fst ps"
  by (induction ps) auto

lemma map_of_insert_index:
  "k \<notin> set (map fst ps) \<Longrightarrow>
   map_of (insert_index k v ps) x = (if x = k then Some v else map_of ps x)"
  by (induction ps) auto

lemma keys_insert_index:
  "set (map fst (insert_index k v ps)) = insert k (set (map fst ps))"
  by (induction ps) auto

lemma distinct_insert_index:
  "k \<notin> set (map fst ps) \<Longrightarrow> distinct (map fst ps) \<Longrightarrow>
   distinct (map fst (insert_index k v ps))"
proof (induction ps)
  case Nil
  then show ?case by simp
next
  case (Cons p ps)
  have "fst p \<notin> set (map fst (insert_index k v ps))"
    using Cons.prems unfolding keys_insert_index by auto
  with Cons show ?case by auto
qed

lemma map_of_append_new:
  "k \<notin> set (map fst ps) \<Longrightarrow>
   map_of (ps @ [(k, v)]) x = (if x = k then Some v else map_of ps x)"
  by (induction ps) auto

lemma map_of_define_prop:
  "map_of (define_prop ps k v) = (map_of ps)(k \<mapsto> v)"
  unfolding define_prop_def fun_eq_iff
  by (simp add: map_of_replace_value map_of_insert_index map_of_append_new del: map_of_append)

lemma distinct_define_prop:
  "distinct (map fst ps) \<Longrightarrow> distinct (map fst (define_prop ps k v))"
  unfolding define_prop_def
  by (simp add: keys_replace_value distinct_insert_index)

lemma map_of_define_all:
  "map_of (foldl (\<lambda>ps kv. define_prop ps (fst kv) (snd kv)) acc kvs) = map_of acc ++ map_of (rev kvs)"
proof (induction kvs arbitrary: acc)
  case Nil
  then show ?case by simp
next
  case (Cons kv kvs)
  show ?case
    by (cases kv) (simp add: Cons.IH map_of_define_prop fun_eq_iff map_add_def split: option.splits)
qed

lemma distinct_define_all:
  "distinct (map fst acc) \<Longrightarrow>
   distinct (map fst (foldl (\<lambda>ps kv. define_prop ps (fst kv) (snd kv)) acc kvs))"
  by (induction kvs arbitrary: acc) (auto simp: distinct_define_prop)

lemma map_of_rev_distinct:
  "distinct (map fst kvs) \<Longrightarrow> map_of (rev kvs) = map_of kvs"
  by (rule map_of_inject_set[THEN iffD2]) (auto simp: distinct_rev rev_map[symmetric])

lemma map_of_mergedConfig:
  assumes "distinct (map fst B)" "distinct (map fst P)"
  shows "map_of (own_props (mergedConfig (JObj B) (JObj P))) = map_of B ++ map_of P"
proof -
  have "map_of (own_props (mergedConfig (JObj B) (JObj P))) = map_of (rev B) ++ map_of (rev P)"
    by (simp add: mergedConfig_def spread_def map_of_define_all)
  with assms show ?thesis by (simp add: map_of_rev_distinct)
qed

lemma distinct_mergedConfig:
  "distinct (map fst (own_props (mergedConfig a b)))"
  by (simp add: mergedConfig_def spread_def distinct_define_all)

text \<open>
  Claim C2: for every base document \<open>B\<close> and every incoming partial document \<open>P\<close>
  (objects: no key twice), the merge \<^verbatim>\<open>{...B, ...P}\<close> is an object in which every
  top-level key of \<open>B\<close> that \<open>P\<close> does not have keeps the value of \<open>B\<close>, and every
  top-level key of \<open>P\<close> has the value of \<open>P\<close>. The merge is shallow: the value under a
  key of \<open>P\<close> is the value of \<open>P\<close> whole, whatever nested structure \<open>B\<close> held there.
\<close>

theorem C2_merge:
  assumes "distinct (map fst B)" and "distinct (map fst P)"
  shows "mergedConfig (JObj B) (JObj P) = JObj (own_props (mergedConfig (JObj B) (JObj P)))
    \<and> distinct (map fst (own_props (mergedConfig (JObj B) (JObj P))))
    \<and> (\<forall>k. map_of P k = None \<longrightarrow>
          map_of (own_props (mergedConfig (JObj B) (JObj P))) k = map_of B k)
    \<and> (\<forall>k v. map_of P k = Some v \<longrightarrow>
          map_of (own_props (mergedConfig (JObj B) (JObj P))) k = Some v)"
proof (intro conjI allI impI)
  show "mergedConfig (JObj B) (JObj P) = JObj (own_props (mergedConfig (JObj B) (JObj P)))"
    by (simp add: mergedConfig_def spread_def)
  show "distinct (map fst (own_props (mergedConfig (JObj B) (JObj P))))"
    by (rule distinct_mergedConfig)
next
  fix k assume "map_of P k = None"
  then show "map_of (own_props (mergedConfig (JObj B) (JObj P))) k = map_of B k"
    by (simp add: map_of_mergedConfig [OF assms] map_add_def)
next
  fix k v assume "map_of P k = Some v"
  then show "map_of (own_props (mergedConfig (JObj B) (JObj P))) k = Some v"
    by (simp add: map_of_mergedConfig [OF assms] map_add_def)
qed

text \<open>
  C2 at a base with a nested \<open>limits\<close> object and a partial that brings its own
  \<open>limits\<close> and a new key: the nested object is replaced whole, the other keys of the
  base stay, the new key is added.
\<close>

theorem C2_merge_witness:
  "distinct (map fst [(''isDefault'', JBool True),
                      (''limits'', JObj [(''depth'', JNum 1), (''pages'', JNum 2)]),
                      (''requestPriority'', JNum 5)])
   \<and> distinct (map fst [(''limits'', JObj [(''depth'', JNum 9)]), (''owner'', JStr ''ops'')])
   \<and> mergedConfig
        (JObj [(''isDefault'', JBool True),
               (''limits'', JObj [(''depth'', JNum 1), (''pages'', JNum 2)]),
               (''requestPriority'', JNum 5)])
        (JObj [(''limits'', JObj [(''depth'', JNum 9)]), (''owner'', JStr ''ops'')])
      = JObj [(''isDefault'', JBool True),
              (''limits'', JObj [(''depth'', JNum 9)]),
              (''requestPriority'', JNum 5),
              (''owner'', JStr ''ops'')]"
proof -
  let ?B = "[(''isDefault'', JBool True),
             (''limits'', JObj [(''depth'', JNum 1), (''pages'', JNum 2)]),
             (''requestPriority'', JNum 5)]"
  let ?P = "[(''limits'', JObj [(''depth'', JNum 9)]), (''owner'', JStr ''ops'')]"
  have b: "distinct (map fst ?B)" by simp
  have p: "distinct (map fst ?P)" by simp
  have m: "own_props (mergedConfig (JObj ?B) (JObj ?P))
      = [(''isDefault'', JBool True), (''limits'', JObj [(''depth'', JNum 9)]),
         (''requestPriority'', JNum 5), (''owner'', JStr ''ops'')]"
    by (simp add: mergedConfig_def spread_def define_prop_def is_array_index_def is_digit_def)
  from C2_merge [OF b p] m b p show ?thesis by simp
qed

section \<open>The resolver\<close>

text \<open>
  The test \<^verbatim>\<open>c && c.isDefault === true\<close> holds of the documents whose \<open>isDefault\<close> is
  \<open>true\<close>, so the search of the handler is the fallback chain of the specification.
\<close>

lemma is_default_iff: "is_default c \<longleftrightarrow> has_isDefault_true c"
  by (cases c)
     (simp_all add: is_default_def has_isDefault_true_def get_property_def Object_prototype_def
        split: option.splits)

lemma is_default_truthy: "is_default c \<Longrightarrow> truthy c"
  by (simp add: is_default_def)

lemma find_filter_conv:
  "find P xs = (case filter P xs of [] \<Rightarrow> None | x # ys \<Rightarrow> Some x)"
  by (induction xs) auto

lemma fallback_chain:
  "or_else (find is_default (map snd configs)) DEFAULT_CONFIG
     = fallback_spec configs DEFAULT_CONFIG"
proof (cases "find is_default (map snd configs)")
  case None
  then have "filter has_isDefault_true (map snd configs) = []"
    by (simp add: find_filter_conv is_default_iff[abs_def] split: list.splits)
  with None show ?thesis by (simp add: or_else_def fallback_spec_def)
next
  case (Some d)
  then have "is_default d" by (auto simp: find_Some_iff)
  then have t: "truthy d" by (rule is_default_truthy)
  from Some obtain ds where "filter has_isDefault_true (map snd configs) = d # ds"
    by (auto simp: find_filter_conv is_default_iff[abs_def] split: list.splits)
  with Some t show ?thesis by (simp add: or_else_def fallback_spec_def)
qed

lemma fallback_spec_truthy:
  "truthy (fallback_spec configs DEFAULT_CONFIG)"
proof (cases "filter has_isDefault_true (map snd configs)")
  case Nil
  then show ?thesis by (simp add: fallback_spec_def DEFAULT_CONFIG_def)
next
  case (Cons d ds)
  then have "d \<in> set (filter has_isDefault_true (map snd configs))" by simp
  then have "has_isDefault_true d" by simp
  then have "truthy d" by (simp add: is_default_iff[symmetric] is_default_truthy)
  with Cons show ?thesis by (simp add: fallback_spec_def)
qed

lemma get_property_own:
  "map_of obj k = Some v \<Longrightarrow> get_property obj k = Some v"
  by (simp add: get_property_def)

lemma get_property_absent:
  "map_of obj k = None \<Longrightarrow> k \<notin> set Object_prototype \<Longrightarrow> get_property obj k = None"
  by (simp add: get_property_def)

lemma resolveConfig_truthy_entry:
  "map_of configs orgId = Some d \<Longrightarrow> truthy d \<Longrightarrow> resolveConfig configs orgId = d"
  by (simp add: resolveConfig_def get_property_own falsy_def or_else_def)

lemma resolveConfig_falsy_entry:
  "map_of configs orgId = Some d \<Longrightarrow> \<not> truthy d \<Longrightarrow>
   resolveConfig configs orgId = fallback_spec configs DEFAULT_CONFIG"
  by (simp add: resolveConfig_def get_property_own falsy_def fallback_chain)

lemma resolveConfig_no_entry:
  "map_of configs orgId = None \<Longrightarrow> orgId \<notin> set Object_prototype \<Longrightarrow>
   resolveConfig configs orgId = fallback_spec configs DEFAULT_CONFIG"
  by (simp add: resolveConfig_def get_property_absent falsy_def fallback_chain)

lemma getOrgConfig_store: "snd (getOrgConfig rt req st) = st"
  by (simp add: getOrgConfig_def Let_def split: option.splits)

lemma fallback_spec_remove:
  assumes "map_of configs orgId = Some v" "\<not> truthy v" "distinct (map fst configs)"
  shows "fallback_spec (filter (\<lambda>kv. fst kv \<noteq> orgId) configs) h = fallback_spec configs h"
proof -
  have "filter has_isDefault_true (map snd (filter (\<lambda>kv. fst kv \<noteq> orgId) configs))
        = filter has_isDefault_true (map snd configs)"
    using assms
  proof (induction configs)
    case Nil
    then show ?case by simp
  next
    case (Cons p ps)
    show ?case
    proof (cases "fst p = orgId")
      case True
      with Cons.prems have "snd p = v" by (cases p) simp
      with Cons.prems have nd: "\<not> has_isDefault_true (snd p)"
        using is_default_iff is_default_truthy by blast
      from True Cons.prems have "orgId \<notin> fst ` set ps" by simp
      then have "filter (\<lambda>kv. fst kv \<noteq> orgId) ps = ps"
        by (auto simp: filter_id_conv)
      with True nd show ?thesis by simp
    next
      case False
      with Cons show ?thesis by (cases p) simp
    qed
  qed
  then show ?thesis by (simp add: fallback_spec_def)
qed

lemma map_of_remove: "map_of (filter (\<lambda>kv. fst kv \<noteq> k) ps) k = None"
  by (induction ps) auto

lemma getOrgConfig_found:
  assumes "req_orgId req = Some orgId" "orgId \<noteq> []"
    "\<exists>org\<in>set (ORG_FILE st). ToString rt (ORG_ID org) = orgId"
  shows "getOrgConfig rt req st =
     (reply 200 ''Org config fetched successfully''
        (ConfigDetails (resolveConfig (CONFIG_FILE st) orgId)), st)"
  using assms by (auto simp: getOrgConfig_def list_ex_iff)

text \<open>
  Claim C3, as stated, at a map whose entry for the id exists and is \<open>0\<close>: the
  precedence of the claim returns the entry, and the handler serves the hardcoded default.
\<close>

theorem C3_counterexample:
  "resolve_spec ''1000000000000'' [(''1000000000000'', JNum 0)] DEFAULT_CONFIG = JNum 0
   \<and> getOrgConfig sample_runtime
       \<lparr>req_action = Some ''getOrgConfig'', req_orgName = None,
        req_orgId = Some ''1000000000000'', req_config = None\<rparr>
       \<lparr>CONFIG_FILE = [(''1000000000000'', JNum 0)],
        ORG_FILE = [\<lparr>ORG_ID = IdNum 1000000000000, ORG_NAME = ''Acme''\<rparr>]\<rparr>
     = (reply 200 ''Org config fetched successfully'' (ConfigDetails DEFAULT_CONFIG),
        \<lparr>CONFIG_FILE = [(''1000000000000'', JNum 0)],
         ORG_FILE = [\<lparr>ORG_ID = IdNum 1000000000000, ORG_NAME = ''Acme''\<rparr>]\<rparr>)
   \<and> DEFAULT_CONFIG \<noteq> JNum 0"
  by (simp add: resolve_spec_def getOrgConfig_def NumberToString_def digit_char_def
      to_double_def round_half_even_def resolveConfig_def get_property_def falsy_def
      or_else_def is_default_def DEFAULT_CONFIG_def)

text \<open>
  Claim C3, amended: for every configuration map and every \<open>orgId\<close> that is not the
  name of a member inherited from \<^verbatim>\<open>Object.prototype\<close>, the resolver follows this
  precedence. If the map has an entry for \<open>orgId\<close> and the entry is truthy (every
  document is), the entry is returned unchanged. Otherwise (no entry, or an entry that is
  \<^verbatim>\<open>null\<close>, \<^verbatim>\<open>false\<close>, \<open>0\<close> or the empty string) the first document among the map's
  values, in the map's order, with \<^verbatim>\<open>isDefault === true\<close> is returned, and the hardcoded
  default when there is none. On a map whose entry for \<open>orgId\<close>, if any, is truthy this
  is the precedence of the claim. The operation mutates nothing.
\<close>

theorem C3_resolve:
  assumes "orgId \<notin> set Object_prototype"
  shows "(\<forall>d. map_of configs orgId = Some d \<and> truthy d \<longrightarrow> resolveConfig configs orgId = d)
    \<and> (map_of configs orgId = None \<or> (\<exists>d. map_of configs orgId = Some d \<and> \<not> truthy d)
         \<longrightarrow> resolveConfig configs orgId = fallback_spec configs DEFAULT_CONFIG)
    \<and> ((\<forall>d. map_of configs orgId = Some d \<longrightarrow> truthy d)
         \<longrightarrow> resolveConfig configs orgId = resolve_spec orgId configs DEFAULT_CONFIG)
    \<and> snd (getOrgConfig rt req st) = st
    \<and> (req_orgId req = Some orgId \<and> orgId \<noteq> []
         \<and> (\<exists>org\<in>set (ORG_FILE st). ToString rt (ORG_ID org) = orgId)
         \<longrightarrow> getOrgConfig rt req st =
               (reply 200 ''Org config fetched successfully''
                  (ConfigDetails (resolveConfig (CONFIG_FILE st) orgId)), st))"
proof (intro conjI)
  show "\<forall>d. map_of configs orgId = Some d \<and> truthy d \<longrightarrow> resolveConfig configs orgId = d"
    by (simp add: resolveConfig_truthy_entry)
  show "map_of configs orgId = None \<or> (\<exists>d. map_of configs orgId = Some d \<and> \<not> truthy d)
         \<longrightarrow> resolveConfig configs orgId = fallback_spec configs DEFAULT_CONFIG"
    using assms by (auto simp: resolveConfig_falsy_entry resolveConfig_no_entry)
  show "(\<forall>d. map_of configs orgId = Some d \<longrightarrow> truthy d)
         \<longrightarrow> resolveConfig configs orgId = resolve_spec orgId configs DEFAULT_CONFIG"
    using assms
    by (cases "map_of configs orgId")
       (simp_all add: resolve_spec_def resolveConfig_truthy_entry resolveConfig_no_entry)
  show "snd (getOrgConfig rt req st) = st"
    by (rule getOrgConfig_store)
  show "req_orgId req = Some orgId \<and> orgId \<noteq> []
         \<and> (\<exists>org\<in>set (ORG_FILE st). ToString rt (ORG_ID org) = orgId)
         \<longrightarrow> getOrgConfig rt req st =
               (reply 200 ''Org config fetched successfully''
                  (ConfigDetails (resolveConfig (CONFIG_FILE st) orgId)), st)"
    by (simp add: getOrgConfig_found)
qed

text \<open>
  The amended C3 at an id with no entry, in a map whose second document is marked as the
  default.
\<close>

theorem C3_resolve_witness:
  "''1000000000001'' \<notin> set Object_prototype
   \<and> getOrgConfig sample_runtime
       \<lparr>req_action = Some ''getOrgConfig'', req_orgName = None,
        req_orgId = Some ''1000000000001'', req_config = None\<rparr>
       \<lparr>CONFIG_FILE =
          [(''1000000000000'', JObj [(''requestPriority'', JNum 7)]),
           (''1000000000002'',
            JObj [(''isDefault'', JBool True), (''requestPriority'', JNum 9)])],
        ORG_FILE = [\<lparr>ORG_ID = IdNum 1000000000001, ORG_NAME = ''Beta''\<rparr>]\<rparr>
     = (reply 200 ''Org config fetched successfully''
          (ConfigDetails (JObj [(''isDefault'', JBool True), (''requestPriority'', JNum 9)])),
        \<lparr>CONFIG_FILE =
           [(''1000000000000'', JObj [(''requestPriority'', JNum 7)]),
            (''1000000000002'',
             JObj [(''isDefault'', JBool True), (''requestPriority'', JNum 9)])],
         ORG_FILE = [\<lparr>ORG_ID = IdNum 1000000000001, ORG_NAME = ''Beta''\<rparr>]\<rparr>)"
proof -
  let ?configs = "[(''1000000000000'', JObj [(''requestPriority'', JNum 7)]),
           (''1000000000002'',
            JObj [(''isDefault'', JBool True), (''requestPriority'', JNum 9)])]"
  let ?req = "\<lparr>req_action = Some ''getOrgConfig'', req_orgName = None,
        req_orgId = Some ''1000000000001'', req_config = None\<rparr>"
  let ?st = "\<lparr>CONFIG_FILE = ?configs,
        ORG_FILE = [\<lparr>ORG_ID = IdNum 1000000000001, ORG_NAME = ''Beta''\<rparr>]\<rparr>"
  have h: "''1000000000001'' \<notin> set Object_prototype"
    by (simp add: Object_prototype_def)
  have n: "map_of ?configs ''1000000000001'' = None" by simp
  have f: "fallback_spec ?configs DEFAULT_CONFIG
      = JObj [(''isDefault'', JBool True), (''requestPriority'', JNum 9)]"
    by (simp add: fallback_spec_def has_isDefault_true_def)
  have e: "\<exists>org\<in>set (ORG_FILE ?st). ToString sample_runtime (ORG_ID org) = ''1000000000001''"
    by (simp add: NumberToString_def digit_char_def to_double_def
      round_half_even_def)
  from C3_resolve [where configs = ?configs and rt = sample_runtime and req = ?req
      and st = ?st, OF h] n f e h
  show ?thesis by simp
qed

text \<open>The falsy values of a JSON document.\<close>

lemma falsy_values:
  "\<not> truthy v \<longleftrightarrow> v = JNull \<or> v = JBool False \<or> v = JNum 0 \<or> v = JStr []"
  by (cases v) auto

text \<open>
  Claim C10: for every configuration map (an object: no key twice) in which the key of
  \<open>orgId\<close> is present but mapped to a falsy value (\<^verbatim>\<open>null\<close>, \<^verbatim>\<open>false\<close>, \<open>0\<close> or the
  empty string), \<^verbatim>\<open>getOrgConfig\<close> does not return the stored value: it serves the
  fallback chain (the first \<^verbatim>\<open>isDefault === true\<close> document in the map's value order,
  else the hardcoded default), exactly as the specification's resolver does on the map
  without the entry.
\<close>

theorem C10_falsy_entry:
  assumes "map_of configs orgId = Some v"
    and "v = JNull \<or> v = JBool False \<or> v = JNum 0 \<or> v = JStr []"
    and "distinct (map fst configs)"
  shows "resolveConfig configs orgId \<noteq> v
    \<and> resolveConfig configs orgId = fallback_spec configs DEFAULT_CONFIG
    \<and> resolveConfig configs orgId
        = resolve_spec orgId (filter (\<lambda>kv. fst kv \<noteq> orgId) configs) DEFAULT_CONFIG
    \<and> (req_orgId req = Some orgId \<and> orgId \<noteq> [] \<and> CONFIG_FILE st = configs
         \<and> (\<exists>org\<in>set (ORG_FILE st). ToString rt (ORG_ID org) = orgId)
         \<longrightarrow> getOrgConfig rt req st =
               (reply 200 ''Org config fetched successfully''
                  (ConfigDetails (fallback_spec configs DEFAULT_CONFIG)), st))"
proof -
  from assms(2) have v: "\<not> truthy v" by (simp add: falsy_values)
  have r: "resolveConfig configs orgId = fallback_spec configs DEFAULT_CONFIG"
    using assms(1) v by (rule resolveConfig_falsy_entry)
  have "truthy (resolveConfig configs orgId)"
    by (simp add: r fallback_spec_truthy)
  with v have 1: "resolveConfig configs orgId \<noteq> v" by auto
  have 3: "resolveConfig configs orgId
        = resolve_spec orgId (filter (\<lambda>kv. fst kv \<noteq> orgId) configs) DEFAULT_CONFIG"
    by (simp add: r resolve_spec_def map_of_remove fallback_spec_remove [OF assms(1) v assms(3)])
  have 4: "req_orgId req = Some orgId \<and> orgId \<noteq> [] \<and> CONFIG_FILE st = configs
         \<and> (\<exists>org\<in>set (ORG_FILE st). ToString rt (ORG_ID org) = orgId)
         \<longrightarrow> getOrgConfig rt req st =
               (reply 200 ''Org config fetched successfully''
                  (ConfigDetails (fallback_spec configs DEFAULT_CONFIG)), st)"
    using r by (auto simp: getOrgConfig_found)
  from 1 r 3 4 show ?thesis by blast
qed

text \<open>C10 at a map whose entry for the id is \<^verbatim>\<open>null\<close> and whose other document is the default.\<close>

theorem C10_falsy_entry_witness:
  "map_of [(''1000000000000'', JNull),
           (''1000000000001'', JObj [(''isDefault'', JBool True)])] ''1000000000000''
     = Some JNull
   \<and> distinct (map fst [(''1000000000000'', JNull),
                        (''1000000000001'', JObj [(''isDefault'', JBool True)])])
   \<and> getOrgConfig sample_runtime
       \<lparr>req_action = Some ''getOrgConfig'', req_orgName = None,
        req_orgId = Some ''1000000000000'', req_config = None\<rparr>
       \<lparr>CONFIG_FILE = [(''1000000000000'', JNull),
                       (''1000000000001'', JObj [(''isDefault'', JBool True)])],
        ORG_FILE = [\<lparr>ORG_ID = IdNum 1000000000000, ORG_NAME = ''Acme''\<rparr>]\<rparr>
     = (reply 200 ''Org config fetched successfully''
          (ConfigDetails (JObj [(''isDefault'', JBool True)])),
        \<lparr>CONFIG_FILE = [(''1000000000000'', JNull),
                        (''1000000000001'', JObj [(''isDefault'', JBool True)])],
         ORG_FILE = [\<lparr>ORG_ID = IdNum 1000000000000, ORG_NAME = ''Acme''\<rparr>]\<rparr>)"
proof -
  let ?configs = "[(''1000000000000'', JNull),
                   (''1000000000001'', JObj [(''isDefault'', JBool True)])]"
  let ?req = "\<lparr>req_action = Some ''getOrgConfig'', req_orgName = None,
        req_orgId = Some ''1000000000000'', req_config = None\<rparr>"
  let ?st = "\<lparr>CONFIG_FILE = ?configs,
        ORG_FILE = [\<lparr>ORG_ID = IdNum 1000000000000, ORG_NAME = ''Acme''\<rparr>]\<rparr>"
  have m: "map_of ?configs ''1000000000000'' = Some JNull" by simp
  have d: "distinct (map fst ?configs)" by simp
  have f: "fallback_spec ?configs DEFAULT_CONFIG = JObj [(''isDefault'', JBool True)]"
    by (simp add: fallback_spec_def has_isDefault_true_def)
  have e: "\<exists>org\<in>set (ORG_FILE ?st). ToString sample_runtime (ORG_ID org) = ''1000000000000''"
    by (simp add: NumberToString_def digit_char_def to_double_def
      round_half_even_def)
  from C10_falsy_entry [where rt = sample_runtime and req = ?req and st = ?st, OF m _ d]
    m d f e
  show ?thesis by simp
qed

section \<open>Creating an organization\<close>

text \<open>
  Claim C7: for every organization list and every requested name that is equal, character
  for character, to the name of an existing organization, \<^verbatim>\<open>createOrg\<close> fails with the
  duplicate-name response (409) and leaves the store as it was; when the name is absent or
  empty it fails with the missing-name response (400) instead, again with the store as it
  was.
\<close>

theorem C7_createOrg:
  "(req_orgName req = Some name \<and> name \<noteq> []
      \<and> (\<exists>org\<in>set (ORG_FILE st). ORG_NAME org = name)
      \<longrightarrow> createOrg rt req st = (reply 409 ''OrgName already exists'' NoDetails, st))
   \<and> (blank (req_orgName req)
      \<longrightarrow> createOrg rt req st = (reply 400 ''Missing orgName'' NoDetails, st))"
  by (auto simp: createOrg_def blank_def list_ex_iff Let_def split: option.splits)

text \<open>C7 at a list that holds \<open>Acme\<close>: the name \<open>Acme\<close> again, and the empty name.\<close>

theorem C7_createOrg_witness:
  "createOrg sample_runtime
     \<lparr>req_action = Some ''createOrg'', req_orgName = Some ''Acme'', req_orgId = None,
      req_config = None\<rparr>
     \<lparr>CONFIG_FILE = [],
      ORG_FILE = [\<lparr>ORG_ID = IdNum 1000000000000, ORG_NAME = ''Acme''\<rparr>]\<rparr>
     = (reply 409 ''OrgName already exists'' NoDetails,
        \<lparr>CONFIG_FILE = [],
         ORG_FILE = [\<lparr>ORG_ID = IdNum 1000000000000, ORG_NAME = ''Acme''\<rparr>]\<rparr>)
   \<and> createOrg sample_runtime
     \<lparr>req_action = Some ''createOrg'', req_orgName = Some [], req_orgId = None,
      req_config = None\<rparr>
     \<lparr>CONFIG_FILE = [],
      ORG_FILE = [\<lparr>ORG_ID = IdNum 1000000000000, ORG_NAME = ''Acme''\<rparr>]\<rparr>
     = (reply 400 ''Missing orgName'' NoDetails,
        \<lparr>CONFIG_FILE = [],
         ORG_FILE = [\<lparr>ORG_ID = IdNum 1000000000000, ORG_NAME = ''Acme''\<rparr>]\<rparr>)"
proof -
  let ?st = "\<lparr>CONFIG_FILE = [],
      ORG_FILE = [\<lparr>ORG_ID = IdNum 1000000000000, ORG_NAME = ''Acme''\<rparr>]\<rparr>"
  let ?dup = "\<lparr>req_action = Some ''createOrg'', req_orgName = Some ''Acme'', req_orgId = None,
      req_config = None\<rparr>"
  let ?empty = "\<lparr>req_action = Some ''createOrg'', req_orgName = Some [], req_orgId = None,
      req_config = None\<rparr>"
  from C7_createOrg [of ?dup "''Acme''" ?st sample_runtime]
  have 1: "createOrg sample_runtime ?dup ?st = (reply 409 ''OrgName already exists'' NoDetails, ?st)"
    by simp
  from C7_createOrg [of ?empty "''Acme''" ?st sample_runtime]
  have 2: "createOrg sample_runtime ?empty ?st = (reply 400 ''Missing orgName'' NoDetails, ?st)"
    by (simp add: blank_def)
  from 1 2 show ?thesis by simp
qed

section \<open>Updating a configuration\<close>

text \<open>The three outcomes of \<^verbatim>\<open>updateOrgConfig\<close>.\<close>

lemma updateOrgConfig_missing:
  "blank (req_orgId req) \<or> falsy (req_config req) \<Longrightarrow>
   updateOrgConfig rt req st = (reply 400 ''Missing orgId or config'' NoDetails, st)"
  by (simp add: updateOrgConfig_def)

lemma updateOrgConfig_undecodable:
  assumes "req_orgId req = Some orgId" "orgId \<noteq> []"
    and "req_config req = Some config" "truthy config" "decodeConfig rt config = None"
  shows "updateOrgConfig rt req st = (reply 400 ''Invalid JSON in config field'' NoDetails, st)"
  using assms by (simp add: updateOrgConfig_def blank_def falsy_def)

lemma updateOrgConfig_merged:
  assumes "req_orgId req = Some orgId" "orgId \<noteq> []"
    and "req_config req = Some config" "truthy config" "decodeConfig rt config = Some incoming"
  shows "updateOrgConfig rt req st =
     (reply 200 ''Org config updated successfully''
        (ConfigDetails (mergedConfig (existingConfig (CONFIG_FILE st) orgId) incoming)),
      \<lparr>CONFIG_FILE = assign_prop (CONFIG_FILE st) orgId
                        (mergedConfig (existingConfig (CONFIG_FILE st) orgId) incoming),
       ORG_FILE = ensureOrg rt req orgId (ORG_FILE st)\<rparr>)"
  using assms by (simp add: updateOrgConfig_def blank_def falsy_def Let_def)

lemma ensureOrg_found:
  "\<exists>org\<in>set orgs. ToString rt (ORG_ID org) = orgId \<Longrightarrow> ensureOrg rt req orgId orgs = orgs"
  by (auto simp: ensureOrg_def find_None_iff split: option.splits)

lemma updateOrgConfig_cases:
  "updateOrgConfig rt req st = (reply 400 ''Missing orgId or config'' NoDetails, st)
   \<or> updateOrgConfig rt req st = (reply 400 ''Invalid JSON in config field'' NoDetails, st)
   \<or> (\<exists>orgId merged. req_orgId req = Some orgId \<and>
        updateOrgConfig rt req st =
          (reply 200 ''Org config updated successfully'' (ConfigDetails merged),
           \<lparr>CONFIG_FILE = assign_prop (CONFIG_FILE st) orgId merged,
            ORG_FILE = ensureOrg rt req orgId (ORG_FILE st)\<rparr>))"
  by (auto simp: updateOrgConfig_def Let_def split: option.splits)

lemma NumberToString_nat:
  "n < 2 ^ 53 \<Longrightarrow> NumberToString rt (of_nat n) = show_nat n"
proof -
  assume "n < 2 ^ 53"
  then have "(of_nat n :: rat) < of_nat (2 ^ 53)" by (simp only: of_nat_less_iff)
  then show ?thesis by (simp add: NumberToString_def)
qed

text \<open>
  Claim C6, as stated, at a request whose \<^verbatim>\<open>config\<close> is the undecodable text \<^verbatim>\<open>{\<close> and
  whose \<^verbatim>\<open>orgId\<close> is missing: the handler answers with the missing-field response, not
  with the invalid-JSON one.
\<close>

theorem C6_counterexample:
  "decodeConfig sample_runtime (JStr ''{'') = None
   \<and> updateOrgConfig sample_runtime
       \<lparr>req_action = Some ''updateOrgConfig'', req_orgName = None, req_orgId = None,
        req_config = Some (JStr ''{'')\<rparr>
       \<lparr>CONFIG_FILE = [], ORG_FILE = []\<rparr>
     = (reply 400 ''Missing orgId or config'' NoDetails, \<lparr>CONFIG_FILE = [], ORG_FILE = []\<rparr>)
   \<and> reply 400 ''Missing orgId or config'' NoDetails
     \<noteq> reply 400 ''Invalid JSON in config field'' NoDetails"
  by (simp add: decodeConfig_def sample_runtime_def updateOrgConfig_def blank_def reply_def)

text \<open>
  Claim C6, amended: for every \<^verbatim>\<open>updateOrgConfig\<close> request whose \<^verbatim>\<open>config\<close> field is a
  text that fails to decode, the handler fails with status 400 and neither the
  configuration map nor the organization list is mutated. The failure is the invalid-JSON
  response when \<^verbatim>\<open>orgId\<close> is present and non-empty and the text is non-empty, and the
  missing-field response otherwise.
\<close>

theorem C6_undecodable_config:
  assumes "req_config req = Some (JStr text)" and "JSON_parse rt text = None"
  shows "snd (updateOrgConfig rt req st) = st
    \<and> res_status (fst (updateOrgConfig rt req st)) = 400
    \<and> (\<not> blank (req_orgId req) \<and> text \<noteq> []
        \<longrightarrow> updateOrgConfig rt req st
            = (reply 400 ''Invalid JSON in config field'' NoDetails, st))
    \<and> (blank (req_orgId req) \<or> text = []
        \<longrightarrow> updateOrgConfig rt req st = (reply 400 ''Missing orgId or config'' NoDetails, st))"
proof -
  have d: "decodeConfig rt (JStr text) = None"
    using assms(2) by (simp add: decodeConfig_def)
  have a: "\<not> blank (req_orgId req) \<and> text \<noteq> []
        \<longrightarrow> updateOrgConfig rt req st
            = (reply 400 ''Invalid JSON in config field'' NoDetails, st)"
    using assms(1) d
    by (auto simp: blank_def intro: updateOrgConfig_undecodable split: option.splits)
  have b: "blank (req_orgId req) \<or> text = []
        \<longrightarrow> updateOrgConfig rt req st = (reply 400 ''Missing orgId or config'' NoDetails, st)"
    using assms(1) by (auto simp: falsy_def intro: updateOrgConfig_missing)
  from a b show ?thesis
    by (cases "blank (req_orgId req) \<or> text = []") (auto simp: reply_def)
qed

text \<open>The amended C6 at a store with one organization and its configuration.\<close>

theorem C6_undecodable_config_witness:
  "JSON_parse sample_runtime ''{'' = None
   \<and> updateOrgConfig sample_runtime
       \<lparr>req_action = Some ''updateOrgConfig'', req_orgName = None,
        req_orgId = Some ''1000000000000'', req_config = Some (JStr ''{'')\<rparr>
       \<lparr>CONFIG_FILE = [(''1000000000000'', JObj [(''requestPriority'', JNum 7)])],
        ORG_FILE = [\<lparr>ORG_ID = IdNum 1000000000000, ORG_NAME = ''Acme''\<rparr>]\<rparr>
     = (reply 400 ''Invalid JSON in config field'' NoDetails,
        \<lparr>CONFIG_FILE = [(''1000000000000'', JObj [(''requestPriority'', JNum 7)])],
         ORG_FILE = [\<lparr>ORG_ID = IdNum 1000000000000, ORG_NAME = ''Acme''\<rparr>]\<rparr>)"
proof -
  let ?req = "\<lparr>req_action = Some ''updateOrgConfig'', req_orgName = None,
        req_orgId = Some ''1000000000000'', req_config = Some (JStr ''{'')\<rparr>"
  have c: "req_config ?req = Some (JStr ''{'')" by simp
  have p: "JSON_parse sample_runtime ''{'' = None" by (simp add: sample_runtime_def)
  from C6_undecodable_config [OF c p] p show ?thesis by (simp add: blank_def)
qed

text \<open>
  Claim C8: for every \<^verbatim>\<open>updateOrgConfig\<close> call whose \<open>orgId\<close> matches the id of an
  existing organization, the ids compared as strings, the step that ensures the
  organization is a no-op on the organization list: the list after the call is the list
  before it, so a list with exactly one entry for the id still has exactly one. A numeric
  id below \<open>2^53\<close>, as every id of the band is, and the string of its decimal digits have
  the same string form, so they match.
\<close>

theorem C8_existing_org:
  assumes "req_orgId req = Some orgId"
    and "\<exists>org\<in>set (ORG_FILE st). ToString rt (ORG_ID org) = orgId"
  shows "ORG_FILE (snd (updateOrgConfig rt req st)) = ORG_FILE st
    \<and> ensureOrg rt req orgId (ORG_FILE st) = ORG_FILE st
    \<and> (length (filter (\<lambda>org. ToString rt (ORG_ID org) = orgId) (ORG_FILE st)) = 1
        \<longrightarrow> length (filter (\<lambda>org. ToString rt (ORG_ID org) = orgId)
                      (ORG_FILE (snd (updateOrgConfig rt req st)))) = 1)
    \<and> (\<forall>n. n < 2 ^ 53 \<longrightarrow> ToString rt (IdNum (of_nat n)) = ToString rt (IdStr (show_nat n)))"
proof -
  have e: "ensureOrg rt req orgId (ORG_FILE st) = ORG_FILE st"
    using assms(2) by (rule ensureOrg_found)
  have u: "ORG_FILE (snd (updateOrgConfig rt req st)) = ORG_FILE st"
    using updateOrgConfig_cases [of rt req st] assms(1) e by auto
  show ?thesis by (simp add: e u NumberToString_nat to_double_of_nat)
qed

text \<open>C8 at a list whose id is the number and a request that sends the id as text.\<close>

theorem C8_existing_org_witness:
  "(\<exists>org\<in>set [\<lparr>ORG_ID = IdNum 1000000000000, ORG_NAME = ''Acme''\<rparr>].
      ToString sample_runtime (ORG_ID org) = ''1000000000000'')
   \<and> ORG_FILE (snd (updateOrgConfig sample_runtime
       \<lparr>req_action = Some ''updateOrgConfig'', req_orgName = None,
        req_orgId = Some ''1000000000000'', req_config = Some (JStr ''{}'')\<rparr>
       \<lparr>CONFIG_FILE = [],
        ORG_FILE = [\<lparr>ORG_ID = IdNum 1000000000000, ORG_NAME = ''Acme''\<rparr>]\<rparr>))
     = [\<lparr>ORG_ID = IdNum 1000000000000, ORG_NAME = ''Acme''\<rparr>]"
proof -
  let ?req = "\<lparr>req_action = Some ''updateOrgConfig'', req_orgName = None,
        req_orgId = Some ''1000000000000'', req_config = Some (JStr ''{}'')\<rparr>"
  let ?st = "\<lparr>CONFIG_FILE = [],
        ORG_FILE = [\<lparr>ORG_ID = IdNum 1000000000000, ORG_NAME = ''Acme''\<rparr>]\<rparr>"
  have h: "\<exists>org\<in>set (ORG_FILE ?st). ToString sample_runtime (ORG_ID org) = ''1000000000000''"
    by (simp add: NumberToString_def digit_char_def to_double_def
      round_half_even_def)
  have r: "req_orgId ?req = Some ''1000000000000''" by simp
  from C8_existing_org [OF r h] h show ?thesis by simp
qed

subsection \<open>The first write for an id\<close>

text \<open>
  For an id that has no entry and is not the name of an inherited member, the merge base
  is the hardcoded default: the merged document keeps every default field that the
  incoming document does not override, and with no \<open>isDefault\<close> of its own it is stored
  as a default document.
\<close>

lemma existingConfig_absent:
  "map_of configs orgId = None \<Longrightarrow> orgId \<notin> set Object_prototype \<Longrightarrow>
   existingConfig configs orgId = DEFAULT_CONFIG"
  by (simp add: existingConfig_def get_property_absent or_else_def)

lemma distinct_DEFAULT_CONFIG:
  "distinct (map fst (own_props DEFAULT_CONFIG))"
  by (simp add: DEFAULT_CONFIG_def)

lemma first_write_keeps_defaults:
  assumes "map_of (CONFIG_FILE st) orgId = None" and "orgId \<notin> set Object_prototype"
    and "req_orgId req = Some orgId" and "orgId \<noteq> []"
    and "req_config req = Some config" and "truthy config"
    and "decodeConfig rt config = Some (JObj P)" and "distinct (map fst P)"
  shows "fst (updateOrgConfig rt req st) =
      reply 200 ''Org config updated successfully''
        (ConfigDetails (mergedConfig DEFAULT_CONFIG (JObj P)))"
    and "map_of P k = None \<Longrightarrow>
      map_of (own_props (mergedConfig DEFAULT_CONFIG (JObj P))) k
        = map_of (own_props DEFAULT_CONFIG) k"
proof -
  show "fst (updateOrgConfig rt req st) =
      reply 200 ''Org config updated successfully''
        (ConfigDetails (mergedConfig DEFAULT_CONFIG (JObj P)))"
    using assms
    by (simp add: updateOrgConfig_merged [where orgId = orgId and config = config]
        existingConfig_absent)
  have "mergedConfig DEFAULT_CONFIG (JObj P)
      = mergedConfig (JObj (own_props DEFAULT_CONFIG)) (JObj P)"
    by (simp add: DEFAULT_CONFIG_def)
  then have "map_of (own_props (mergedConfig DEFAULT_CONFIG (JObj P)))
      = map_of (own_props DEFAULT_CONFIG) ++ map_of P"
    using map_of_mergedConfig [OF distinct_DEFAULT_CONFIG assms(8)] by simp
  then show "map_of P k = None \<Longrightarrow>
      map_of (own_props (mergedConfig DEFAULT_CONFIG (JObj P))) k
        = map_of (own_props DEFAULT_CONFIG) k"
    by (simp add: map_add_def)
qed

lemma first_write_is_default:
  assumes "map_of (CONFIG_FILE st) orgId = None" and "orgId \<notin> set Object_prototype"
    and "req_orgId req = Some orgId" and "orgId \<noteq> []"
    and "req_config req = Some config" and "truthy config"
    and "decodeConfig rt config = Some (JObj P)" and "distinct (map fst P)"
    and "map_of P ''isDefault'' = None"
  shows "is_default (mergedConfig DEFAULT_CONFIG (JObj P))"
    and "map_of (CONFIG_FILE (snd (updateOrgConfig rt req st))) orgId
      = Some (mergedConfig DEFAULT_CONFIG (JObj P))"
proof -
  have "map_of (own_props (mergedConfig DEFAULT_CONFIG (JObj P))) ''isDefault''
      = map_of (own_props DEFAULT_CONFIG) ''isDefault''"
    using assms by (rule first_write_keeps_defaults(2))
  then have "map_of (own_props (mergedConfig DEFAULT_CONFIG (JObj P))) ''isDefault''
      = Some (JBool True)"
    by (simp add: DEFAULT_CONFIG_def)
  then show "is_default (mergedConfig DEFAULT_CONFIG (JObj P))"
    by (simp add: is_default_iff has_isDefault_true_def mergedConfig_def spread_def)
  have "orgId \<noteq> ''__proto__''"
    using assms(2) by (auto simp: Object_prototype_def)
  then show "map_of (CONFIG_FILE (snd (updateOrgConfig rt req st))) orgId
      = Some (mergedConfig DEFAULT_CONFIG (JObj P))"
    using assms
    by (simp add: updateOrgConfig_merged [where orgId = orgId and config = config]
        existingConfig_absent assign_prop_def map_of_define_prop)
qed

lemma default_document_served:
  assumes "map_of configs orgId = Some merged" and "is_default merged"
    and "map_of configs other = None" and "other \<notin> set Object_prototype"
  shows "is_default (resolveConfig configs other)"
    and "resolveConfig configs other \<in> snd ` set configs"
proof -
  have "merged \<in> set (filter has_isDefault_true (map snd configs))"
    using assms(1,2) by (force simp: is_default_iff dest: map_of_SomeD)
  then obtain d ds where f: "filter has_isDefault_true (map snd configs) = d # ds"
    by (cases "filter has_isDefault_true (map snd configs)") auto
  then have r: "resolveConfig configs other = d"
    using assms(3,4) by (simp add: resolveConfig_no_entry fallback_spec_def)
  have "d \<in> set (filter has_isDefault_true (map snd configs))"
    using f by simp
  then show "is_default (resolveConfig configs other)"
    and "resolveConfig configs other \<in> snd ` set configs"
    by (simp_all add: r is_default_iff)
qed

text \<open>
  Claim C4 says that for every \<^verbatim>\<open>updateOrgConfig\<close> call whose \<open>orgId\<close> has no entry in
  the configuration map the merge base is \<open>DEFAULT_CONFIG\<close>, so the merged document holds
  every default field that the incoming document does not override. At the id
  \<^verbatim>\<open>toString\<close> on an empty map the handler does otherwise: \<^verbatim>\<open>configs[orgId]\<close> is the
  function inherited from \<^verbatim>\<open>Object.prototype\<close>, which is truthy and has no enumerable
  property, and the document merged, returned and stored for the empty incoming document
  is empty.
\<close>

theorem C4_inherited_name:
  "updateOrgConfig sample_runtime
     \<lparr>req_action = Some ''updateOrgConfig'', req_orgName = None,
      req_orgId = Some ''toString'', req_config = Some (JStr ''{}'')\<rparr>
     \<lparr>CONFIG_FILE = [], ORG_FILE = []\<rparr> =
   (reply 200 ''Org config updated successfully'' (ConfigDetails (JObj [])),
    \<lparr>CONFIG_FILE = [(''toString'', JObj [])],
     ORG_FILE = [\<lparr>ORG_ID = IdStr ''toString'', ORG_NAME = ''Org-toString''\<rparr>]\<rparr>)"
  by (simp add: updateOrgConfig_def blank_def falsy_def decodeConfig_def sample_runtime_def
      existingConfig_def get_property_def Object_prototype_def or_else_def mergedConfig_def
      spread_def assign_prop_def define_prop_def is_array_index_def is_digit_def
      ensureOrg_def autoOrgId_def StringToNumber_def)

text \<open>
  Claim C9 says that every first configuration write for an \<open>orgId\<close> with no entry,
  with an incoming document that has no key \<open>isDefault\<close>, stores and returns a document
  with \<^verbatim>\<open>isDefault: true\<close>, eligible as the fallback of the other organizations. At the
  id \<^verbatim>\<open>constructor\<close> on an empty map the stored document is empty: it is not a default
  document, and another organization is still served the hardcoded default.
\<close>

theorem C9_inherited_name:
  "updateOrgConfig sample_runtime
     \<lparr>req_action = Some ''updateOrgConfig'', req_orgName = Some ''Acme'',
      req_orgId = Some ''constructor'', req_config = Some (JStr ''{}'')\<rparr>
     \<lparr>CONFIG_FILE = [], ORG_FILE = []\<rparr> =
   (reply 200 ''Org config updated successfully'' (ConfigDetails (JObj [])),
    \<lparr>CONFIG_FILE = [(''constructor'', JObj [])],
     ORG_FILE = [\<lparr>ORG_ID = IdStr ''constructor'', ORG_NAME = ''Acme''\<rparr>]\<rparr>)
   \<and> is_default (JObj []) = False
   \<and> resolveConfig [(''constructor'', JObj [])] ''1000000000000'' = DEFAULT_CONFIG"
  by (simp add: updateOrgConfig_def blank_def falsy_def decodeConfig_def sample_runtime_def
      existingConfig_def get_property_def Object_prototype_def or_else_def mergedConfig_def
      spread_def assign_prop_def define_prop_def is_array_index_def is_digit_def
      ensureOrg_def autoOrgId_def StringToNumber_def is_default_def resolveConfig_def)

section \<open>The scenarios of the specification\<close>

text \<open>
  The end-to-end scenarios of the specification, run on the model through the entry
  point. A key that does not start with a digit is not an array index.
\<close>

lemma not_array_index: "\<not> is_digit c \<Longrightarrow> is_array_index (c # cs) = False"
  by (simp add: is_array_index_def)

text \<open>
  Scenario 1: on the empty store, creating \<open>Acme\<close> returns the id \<open>1000000000000\<close> and
  the store holds that one organization.
\<close>

lemma scenario_create:
  "crawler sample_runtime
     \<lparr>req_action = Some ''createOrg'', req_orgName = Some ''Acme'', req_orgId = None,
      req_config = None\<rparr>
     \<lparr>CONFIG_FILE = [], ORG_FILE = []\<rparr>
   = (reply 200 ''Org created successfully''
        (OrgDetails \<lparr>ORG_ID = IdNum 1000000000000, ORG_NAME = ''Acme''\<rparr>),
      \<lparr>CONFIG_FILE = [],
       ORG_FILE = [\<lparr>ORG_ID = IdNum 1000000000000, ORG_NAME = ''Acme''\<rparr>]\<rparr>)"
  by (simp add: crawler_def createOrg_def generateOrgId_def to_double_def
      round_half_even_def MIN_ORG_ID_def MAX_ORG_ID_def Let_def)

text \<open>Scenario 2: with no configuration entries, \<open>Acme\<close> is served the hardcoded default.\<close>

lemma scenario_get_default:
  "crawler sample_runtime
     \<lparr>req_action = Some ''getOrgConfig'', req_orgName = None,
      req_orgId = Some ''1000000000000'', req_config = None\<rparr>
     \<lparr>CONFIG_FILE = [],
      ORG_FILE = [\<lparr>ORG_ID = IdNum 1000000000000, ORG_NAME = ''Acme''\<rparr>]\<rparr>
   = (reply 200 ''Org config fetched successfully'' (ConfigDetails DEFAULT_CONFIG),
      \<lparr>CONFIG_FILE = [],
       ORG_FILE = [\<lparr>ORG_ID = IdNum 1000000000000, ORG_NAME = ''Acme''\<rparr>]\<rparr>)"
  by (simp add: crawler_def getOrgConfig_def NumberToString_def digit_char_def to_double_def
      round_half_even_def
      resolveConfig_def get_property_def Object_prototype_def falsy_def or_else_def
      find.simps is_default_def)

text \<open>
  Scenario 3: updating the configuration of \<open>Acme\<close> with \<^verbatim>\<open>throttleRequestCount: 75\<close>
  returns and stores the default document with that one field changed, and the
  organization list still holds the one entry.
\<close>

lemma scenario_update:
  "crawler sample_runtime
     \<lparr>req_action = Some ''updateOrgConfig'', req_orgName = None,
      req_orgId = Some ''1000000000000'',
      req_config = Some (JObj [(''throttleRequestCount'', JNum 75)])\<rparr>
     \<lparr>CONFIG_FILE = [],
      ORG_FILE = [\<lparr>ORG_ID = IdNum 1000000000000, ORG_NAME = ''Acme''\<rparr>]\<rparr>
   = (reply 200 ''Org config updated successfully''
        (ConfigDetails (mergedConfig DEFAULT_CONFIG (JObj [(''throttleRequestCount'', JNum 75)]))),
      \<lparr>CONFIG_FILE =
         [(''1000000000000'',
           mergedConfig DEFAULT_CONFIG (JObj [(''throttleRequestCount'', JNum 75)]))],
       ORG_FILE = [\<lparr>ORG_ID = IdNum 1000000000000, ORG_NAME = ''Acme''\<rparr>]\<rparr>)
   \<and> mergedConfig DEFAULT_CONFIG (JObj [(''throttleRequestCount'', JNum 75)])
   = JObj
         [(''isDefault'', JBool True),
          (''enabledFeatures'',
             JArr [JStr ''2'', JStr ''5'', JStr ''6'', JStr ''9'', JStr ''10'', JStr ''11'']),
          (''includeCrawledURLCountInResponse'', JBool False),
          (''throttleTimeInterval'', JStr ''1D''),
          (''whiteListedDomains'',
             JArr [JStr ''help.zoho.com'', JStr ''docs.catalyst.zoho.com'',
                   JStr ''blogs.manageengine.com'', JStr ''www.manageengine.com'',
                   JStr ''blog.zoho.com'']),
          (''throttleRequestCount'', JNum 75),
          (''maxDepthAllowed'', JNum (- 1)),
          (''maxPagesToFetchAllowed'', JNum 20000),
          (''maxAsyncResponseRate'', JNum 100),
          (''requestPriority'', JNum 5),
          (''isDynamicCrawlingAllowed'', JBool True),
          (''enabledCrawlerFields'',
             JArr [JStr ''Html'', JStr ''OutGoingURLs'', JStr ''Markdown'']),
          (''additionalQueryParams'',
             JArr [JStr ''requestId'', JStr ''recordId'', JStr ''seedStatus'',
                   JStr ''recordStatus''])]"
proof (rule conjI)
  let ?req = "\<lparr>req_action = Some ''updateOrgConfig'', req_orgName = None,
      req_orgId = Some ''1000000000000'',
      req_config = Some (JObj [(''throttleRequestCount'', JNum 75)])\<rparr>"
  let ?st = "\<lparr>CONFIG_FILE = [],
      ORG_FILE = [\<lparr>ORG_ID = IdNum 1000000000000, ORG_NAME = ''Acme''\<rparr>]\<rparr>"
  have e: "existingConfig (CONFIG_FILE ?st) ''1000000000000'' = DEFAULT_CONFIG"
    by (simp add: existingConfig_absent Object_prototype_def)
  have o: "ensureOrg sample_runtime ?req ''1000000000000'' (ORG_FILE ?st) = ORG_FILE ?st"
    by (rule ensureOrg_found) (simp add: NumberToString_def digit_char_def to_double_def
      round_half_even_def)
  have a: "assign_prop [] ''1000000000000'' v = [(''1000000000000'', v)]" for v
    by (simp add: assign_prop_def define_prop_def is_array_index_def is_digit_def
        dec_value_def digit_val_def)
  have "updateOrgConfig sample_runtime ?req ?st
     = (reply 200 ''Org config updated successfully''
        (ConfigDetails (mergedConfig DEFAULT_CONFIG (JObj [(''throttleRequestCount'', JNum 75)]))),
      \<lparr>CONFIG_FILE =
         [(''1000000000000'',
           mergedConfig DEFAULT_CONFIG (JObj [(''throttleRequestCount'', JNum 75)]))],
       ORG_FILE = [\<lparr>ORG_ID = IdNum 1000000000000, ORG_NAME = ''Acme''\<rparr>]\<rparr>)"
    using e o
    by (simp add: updateOrgConfig_merged [where orgId = "''1000000000000''"
          and config = "JObj [(''throttleRequestCount'', JNum 75)]"
          and incoming = "JObj [(''throttleRequestCount'', JNum 75)]"] decodeConfig_def a)
  then show "crawler sample_runtime ?req ?st
     = (reply 200 ''Org config updated successfully''
        (ConfigDetails (mergedConfig DEFAULT_CONFIG (JObj [(''throttleRequestCount'', JNum 75)]))),
      \<lparr>CONFIG_FILE =
         [(''1000000000000'',
           mergedConfig DEFAULT_CONFIG (JObj [(''throttleRequestCount'', JNum 75)]))],
       ORG_FILE = [\<lparr>ORG_ID = IdNum 1000000000000, ORG_NAME = ''Acme''\<rparr>]\<rparr>)"
    by (simp add: crawler_def)
  show "mergedConfig DEFAULT_CONFIG (JObj [(''throttleRequestCount'', JNum 75)])
   = JObj
         [(''isDefault'', JBool True),
          (''enabledFeatures'',
             JArr [JStr ''2'', JStr ''5'', JStr ''6'', JStr ''9'', JStr ''10'', JStr ''11'']),
          (''includeCrawledURLCountInResponse'', JBool False),
          (''throttleTimeInterval'', JStr ''1D''),
          (''whiteListedDomains'',
             JArr [JStr ''help.zoho.com'', JStr ''docs.catalyst.zoho.com'',
                   JStr ''blogs.manageengine.com'', JStr ''www.manageengine.com'',
                   JStr ''blog.zoho.com'']),
          (''throttleRequestCount'', JNum 75),
          (''maxDepthAllowed'', JNum (- 1)),
          (''maxPagesToFetchAllowed'', JNum 20000),
          (''maxAsyncResponseRate'', JNum 100),
          (''requestPriority'', JNum 5),
          (''isDynamicCrawlingAllowed'', JBool True),
          (''enabledCrawlerFields'',
             JArr [JStr ''Html'', JStr ''OutGoingURLs'', JStr ''Markdown'']),
          (''additionalQueryParams'',
             JArr [JStr ''requestId'', JStr ''recordId'', JStr ''seedStatus'',
                   JStr ''recordStatus''])]"
    by (simp add: mergedConfig_def spread_def define_prop_def not_array_index is_digit_def
        DEFAULT_CONFIG_def)
qed

text \<open>
  Scenario 4: updating the unknown id \<open>2000000000000\<close> creates the organization with
  that id and the placeholder name, and stores the merge against the hardcoded default.
\<close>

lemma scenario_update_unknown:
  "crawler sample_runtime
     \<lparr>req_action = Some ''updateOrgConfig'', req_orgName = None,
      req_orgId = Some ''2000000000000'',
      req_config = Some (JObj [(''maxDepthAllowed'', JNum 3)])\<rparr>
     \<lparr>CONFIG_FILE = [], ORG_FILE = []\<rparr>
   = (reply 200 ''Org config updated successfully''
        (ConfigDetails (mergedConfig DEFAULT_CONFIG (JObj [(''maxDepthAllowed'', JNum 3)]))),
      \<lparr>CONFIG_FILE =
         [(''2000000000000'', mergedConfig DEFAULT_CONFIG (JObj [(''maxDepthAllowed'', JNum 3)]))],
       ORG_FILE = [\<lparr>ORG_ID = IdNum 2000000000000, ORG_NAME = ''Org-2000000000000''\<rparr>]\<rparr>)"
proof -
  let ?req = "\<lparr>req_action = Some ''updateOrgConfig'', req_orgName = None,
      req_orgId = Some ''2000000000000'',
      req_config = Some (JObj [(''maxDepthAllowed'', JNum 3)])\<rparr>"
  let ?st = "\<lparr>CONFIG_FILE = [], ORG_FILE = []\<rparr>"
  have e: "existingConfig (CONFIG_FILE ?st) ''2000000000000'' = DEFAULT_CONFIG"
    by (simp add: existingConfig_absent Object_prototype_def)
  have o: "ensureOrg sample_runtime ?req ''2000000000000'' (ORG_FILE ?st)
      = [\<lparr>ORG_ID = IdNum 2000000000000, ORG_NAME = ''Org-2000000000000''\<rparr>]"
    by (simp add: ensureOrg_def autoOrgId_def StringToNumber_def is_digit_def dec_value_def
        digit_val_def)
  have a: "assign_prop [] ''2000000000000'' v = [(''2000000000000'', v)]" for v
    by (simp add: assign_prop_def define_prop_def is_array_index_def is_digit_def
        dec_value_def digit_val_def)
  have "updateOrgConfig sample_runtime ?req ?st
     = (reply 200 ''Org config updated successfully''
        (ConfigDetails (mergedConfig DEFAULT_CONFIG (JObj [(''maxDepthAllowed'', JNum 3)]))),
      \<lparr>CONFIG_FILE =
         [(''2000000000000'', mergedConfig DEFAULT_CONFIG (JObj [(''maxDepthAllowed'', JNum 3)]))],
       ORG_FILE = [\<lparr>ORG_ID = IdNum 2000000000000, ORG_NAME = ''Org-2000000000000''\<rparr>]\<rparr>)"
    using e o
    by (simp add: updateOrgConfig_merged [where orgId = "''2000000000000''"
          and config = "JObj [(''maxDepthAllowed'', JNum 3)]"
          and incoming = "JObj [(''maxDepthAllowed'', JNum 3)]"] decodeConfig_def a)
  then show ?thesis by (simp add: crawler_def)
qed

end
